theory Spec2Isabelle
  imports Main
begin

section \<open>ErrorHandler: error classification and retry\<close>

text \<open>
  A JavaScript \<open>Error\<close> object is a name and a message. Strings are byte lists; the
  messages of the source that are not ASCII are given by their UTF-8 bytes. All needles
  that the source searches for are ASCII, so a search over the bytes finds exactly what
  \<open>String.prototype.includes\<close> finds.
\<close>

datatype js_error = JsError (err_name: string) (err_message: string)

definition new_Error :: "string \<Rightarrow> js_error" where
  "new_Error msg = JsError ''Error'' msg"

definition new_TypeError :: "string \<Rightarrow> js_error" where
  "new_TypeError msg = JsError ''TypeError'' msg"

fun str_includes :: "string \<Rightarrow> string \<Rightarrow> bool" where
  "str_includes [] needle = (needle = [])"
| "str_includes (c # cs) needle =
     (take (length needle) (c # cs) = needle \<or> str_includes cs needle)"

datatype error_type = Network | Timeout | Cors | Ssl | Notfound | Auth | Server | Unknown

datatype severity_level = Low | Medium | High

record error_info =
  etype :: error_type
  isRetryable :: bool
  severity :: severity_level
  originalError :: js_error

definition analyzeError :: "js_error \<Rightarrow> error_info" where
  "analyzeError error =
     (let m = err_message error in
      if err_name error = ''TypeError'' \<and> str_includes m ''fetch'' then
        \<lparr>etype = Network, isRetryable = True, severity = High, originalError = error\<rparr>
      else if str_includes m ''timeout'' then
        \<lparr>etype = Timeout, isRetryable = True, severity = Medium, originalError = error\<rparr>
      else if str_includes m ''CORS'' then
        \<lparr>etype = Cors, isRetryable = False, severity = High, originalError = error\<rparr>
      else if str_includes m ''SSL'' \<or> str_includes m ''certificate'' then
        \<lparr>etype = Ssl, isRetryable = False, severity = High, originalError = error\<rparr>
      else if str_includes m ''404'' then
        \<lparr>etype = Notfound, isRetryable = False, severity = Low, originalError = error\<rparr>
      else if str_includes m ''403'' \<or> str_includes m ''401'' then
        \<lparr>etype = Auth, isRetryable = False, severity = Medium, originalError = error\<rparr>
      else if str_includes m ''500'' \<or> str_includes m ''502'' \<or> str_includes m ''503'' then
        \<lparr>etype = Server, isRetryable = True, severity = High, originalError = error\<rparr>
      else
        \<lparr>etype = Unknown, isRetryable = False, severity = Medium, originalError = error\<rparr>)"

definition msg_offline :: string where
  \<comment> \<open>UTF-8 bytes of the source's message: the network connection is down, check the network settings\<close>
  "msg_offline = map char_of [0xE7, 0xBD, 0x91, 0xE7, 0xBB, 0x9C, 0xE8, 0xBF, 0x9E, 0xE6, 0x8E,
     0xA5, 0xE5, 0xB7, 0xB2, 0xE6, 0x96, 0xAD, 0xE5, 0xBC, 0x80, 0xEF, 0xBC, 0x8C, 0xE8, 0xAF,
     0xB7, 0xE6, 0xA3, 0x80, 0xE6, 0x9F, 0xA5, 0xE7, 0xBD, 0x91, 0xE7, 0xBB, 0x9C, 0xE8, 0xAE,
     0xBE, 0xE7, 0xBD, 0xAE :: nat]"

definition msg_network :: string where
  \<comment> \<open>UTF-8 bytes of the source's message: network connection failed\<close>
  "msg_network = map char_of [0xE7, 0xBD, 0x91, 0xE7, 0xBB, 0x9C, 0xE8, 0xBF, 0x9E, 0xE6, 0x8E,
     0xA5, 0xE5, 0xA4, 0xB1, 0xE8, 0xB4, 0xA5, 0xEF, 0xBC, 0x8C, 0xE8, 0xAF, 0xB7, 0xE6, 0xA3,
     0x80, 0xE6, 0x9F, 0xA5, 0xE7, 0xBD, 0x91, 0xE7, 0xBB, 0x9C, 0xE8, 0xAE, 0xBE, 0xE7, 0xBD,
     0xAE, 0xE5, 0x90, 0x8E, 0xE9, 0x87, 0x8D, 0xE8, 0xAF, 0x95 :: nat]"

definition msg_timeout :: string where
  \<comment> \<open>UTF-8 bytes of the source's message: request timed out\<close>
  "msg_timeout = map char_of [0xE8, 0xAF, 0xB7, 0xE6, 0xB1, 0x82, 0xE8, 0xB6, 0x85, 0xE6, 0x97,
     0xB6, 0xEF, 0xBC, 0x8C, 0xE8, 0xAF, 0xB7, 0xE7, 0xA8, 0x8D, 0xE5, 0x90, 0x8E, 0xE9, 0x87,
     0x8D, 0xE8, 0xAF, 0x95 :: nat]"

definition msg_cors :: string where
  \<comment> \<open>UTF-8 bytes of the source's message: cross-origin request blocked\<close>
  "msg_cors = map char_of [0xE8, 0xB7, 0xA8, 0xE5, 0x9F, 0x9F, 0xE8, 0xAF, 0xB7, 0xE6, 0xB1,
     0x82, 0xE8, 0xA2, 0xAB, 0xE9, 0x98, 0xBB, 0xE6, 0xAD, 0xA2, 0xEF, 0xBC, 0x8C, 0xE8, 0xAF,
     0xB7, 0xE4, 0xBD, 0xBF, 0xE7, 0x94, 0xA8, 0xE4, 0xBB, 0xA3, 0xE7, 0x90, 0x86, 0xE6, 0x9C,
     0x8D, 0xE5, 0x8A, 0xA1 :: nat]"

definition msg_ssl :: string where
  \<comment> \<open>UTF-8 bytes of the source's message: SSL certificate verification failed\<close>
  "msg_ssl = map char_of [0x53, 0x53, 0x4C, 0xE8, 0xAF, 0x81, 0xE4, 0xB9, 0xA6, 0xE9, 0xAA,
     0x8C, 0xE8, 0xAF, 0x81, 0xE5, 0xA4, 0xB1, 0xE8, 0xB4, 0xA5, 0xEF, 0xBC, 0x8C, 0xE8, 0xAF,
     0xB7, 0xE7, 0xA1, 0xAE, 0xE8, 0xAE, 0xA4, 0xE7, 0xBD, 0x91, 0xE7, 0xAB, 0x99, 0xE5, 0xAE,
     0x89, 0xE5, 0x85, 0xA8, 0xE6, 0x80, 0xA7 :: nat]"

definition msg_notfound :: string where
  \<comment> \<open>UTF-8 bytes of the source's message: the requested resource does not exist\<close>
  "msg_notfound = map char_of [0xE8, 0xAF, 0xB7, 0xE6, 0xB1, 0x82, 0xE7, 0x9A, 0x84, 0xE8,
     0xB5, 0x84, 0xE6, 0xBA, 0x90, 0xE4, 0xB8, 0x8D, 0xE5, 0xAD, 0x98, 0xE5, 0x9C, 0xA8 :: nat]"

definition msg_auth :: string where
  \<comment> \<open>UTF-8 bytes of the source's message: access denied\<close>
  "msg_auth = map char_of [0xE8, 0xAE, 0xBF, 0xE9, 0x97, 0xAE, 0xE8, 0xA2, 0xAB, 0xE6, 0x8B,
     0x92, 0xE7, 0xBB, 0x9D, 0xEF, 0xBC, 0x8C, 0xE8, 0xAF, 0xB7, 0xE6, 0xA3, 0x80, 0xE6, 0x9F,
     0xA5, 0xE6, 0x9D, 0x83, 0xE9, 0x99, 0x90, 0xE8, 0xAE, 0xBE, 0xE7, 0xBD, 0xAE :: nat]"

definition msg_server :: string where
  \<comment> \<open>UTF-8 bytes of the source's message: server error\<close>
  "msg_server = map char_of [0xE6, 0x9C, 0x8D, 0xE5, 0x8A, 0xA1, 0xE5, 0x99, 0xA8, 0xE9, 0x94,
     0x99, 0xE8, 0xAF, 0xAF, 0xEF, 0xBC, 0x8C, 0xE8, 0xAF, 0xB7, 0xE7, 0xA8, 0x8D, 0xE5, 0x90,
     0x8E, 0xE9, 0x87, 0x8D, 0xE8, 0xAF, 0x95 :: nat]"

definition msg_unknown :: string where
  \<comment> \<open>UTF-8 bytes of the source's message: an unknown error occurred, retry later\<close>
  "msg_unknown = map char_of [0xE5, 0x8F, 0x91, 0xE7, 0x94, 0x9F, 0xE6, 0x9C, 0xAA, 0xE7, 0x9F,
     0xA5, 0xE9, 0x94, 0x99, 0xE8, 0xAF, 0xAF, 0xEF, 0xBC, 0x8C, 0xE8, 0xAF, 0xB7, 0xE7, 0xA8,
     0x8D, 0xE5, 0x90, 0x8E, 0xE9, 0x87, 0x8D, 0xE8, 0xAF, 0x95 :: nat]"

definition generateUserFriendlyMessage :: "error_info \<Rightarrow> string" where
  "generateUserFriendlyMessage errorInfo =
     (case etype errorInfo of
        Network \<Rightarrow> msg_network
      | Timeout \<Rightarrow> msg_timeout
      | Cors \<Rightarrow> msg_cors
      | Ssl \<Rightarrow> msg_ssl
      | Notfound \<Rightarrow> msg_notfound
      | Auth \<Rightarrow> msg_auth
      | Server \<Rightarrow> msg_server
      | Unknown \<Rightarrow> msg_unknown)"

text \<open>
  The handler's fields. \<open>retryAttempts\<close> is the source's \<open>Map\<close> from operation
  identifiers to attempt counts; \<open>isOnline\<close> is kept up to date by the browser's
  online/offline events and is read here as a field.
\<close>

record error_handler =
  retryAttempts :: "string \<rightharpoonup> nat"
  maxRetries :: nat
  retryDelay :: nat
  isOnline :: bool

definition new_ErrorHandler :: "bool \<Rightarrow> error_handler" where
  "new_ErrorHandler online =
     \<lparr>retryAttempts = Map.empty, maxRetries = 3, retryDelay = 1000, isOnline = online\<rparr>"

definition attempts_of :: "error_handler \<Rightarrow> string \<Rightarrow> nat" where
  \<comment> \<open>\<open>this.retryAttempts.get(operation) || 0\<close>\<close>
  "attempts_of h operation = (case retryAttempts h operation of None \<Rightarrow> 0 | Some n \<Rightarrow> n)"

definition canRetry :: "error_handler \<Rightarrow> string \<Rightarrow> error_info \<Rightarrow> bool" where
  "canRetry h operation errorInfo =
     (if \<not> isRetryable errorInfo then False
      else attempts_of h operation < maxRetries h)"

text \<open>
  What a run of the retry machinery did to the outside: how many times the work function
  was invoked, and the delays it waited before each invocation (in milliseconds).
\<close>

record retry_trace =
  invocations :: nat
  delays :: "nat list"

definition no_trace :: retry_trace where
  "no_trace = \<lparr>invocations = 0, delays = []\<rparr>"

text \<open>
  The work function is asynchronous and effectful; it is modelled by the outcome of each
  of its invocations: \<open>retryFunction i\<close> is what the \<open>i\<close>-th invocation (counted from 0)
  produces, \<open>Inl\<close> for a thrown error and \<open>Inr\<close> for a returned value.
\<close>

function retryOperation ::
  "string \<Rightarrow> (nat \<Rightarrow> js_error + 'a) \<Rightarrow> error_handler \<Rightarrow> retry_trace
     \<Rightarrow> (js_error + 'a) \<times> error_handler \<times> retry_trace" where
  "retryOperation operation retryFunction h tr =
     (let attempts = attempts_of h operation;
          h1 = h\<lparr>retryAttempts := (retryAttempts h)(operation \<mapsto> attempts + 1)\<rparr>;
          delay = retryDelay h * 2 ^ attempts;
          tr1 = \<lparr>invocations = invocations tr + 1, delays = delays tr @ [delay]\<rparr>
      in case retryFunction (invocations tr) of
           Inr result \<Rightarrow>
             (Inr result, h1\<lparr>retryAttempts := (retryAttempts h1)(operation := None)\<rparr>, tr1)
         | Inl error \<Rightarrow>
             if canRetry h1 operation (analyzeError error)
             then retryOperation operation retryFunction h1 tr1
             else (Inl error, h1, tr1))"
  by pat_completeness auto
termination
  by (relation "measure (\<lambda>(operation, retryFunction, h, tr).
        maxRetries h - attempts_of h operation)")
     (auto simp: canRetry_def attempts_of_def split: if_splits)

declare retryOperation.simps [simp del]

definition handleNetworkError ::
  "error_handler \<Rightarrow> js_error \<Rightarrow> string \<Rightarrow> (nat \<Rightarrow> js_error + 'a)
     \<Rightarrow> (js_error + 'a) \<times> error_handler \<times> retry_trace" where
  "handleNetworkError h error operation retryFunction =
     (let errorInfo = analyzeError error in
      if \<not> isOnline h then (Inl (new_Error msg_offline), h, no_trace)
      else if canRetry h operation errorInfo
        then retryOperation operation retryFunction h no_trace
      else (Inl (new_Error (generateUserFriendlyMessage errorInfo)), h, no_trace))"

section \<open>ProxyService: endpoint selection, circuit breaker, dispatch\<close>

text \<open>
  \<open>handleSecurityError\<close> of the ErrorHandler, used by \<open>makeProxyRequest\<close>.
\<close>

definition msg_not_initialized :: string where
  \<comment> \<open>UTF-8 bytes of the source's message: the proxy service is not initialised\<close>
  "msg_not_initialized = map char_of [0xE4, 0xBB, 0xA3, 0xE7, 0x90, 0x86, 0xE6, 0x9C, 0x8D,
     0xE5, 0x8A, 0xA1, 0xE6, 0x9C, 0xAA, 0xE5, 0x88, 0x9D, 0xE5, 0xA7, 0x8B, 0xE5, 0x8C,
     0x96 :: nat]"

definition msg_unsafe_url :: string where
  \<comment> \<open>UTF-8 bytes of the source's message: the target URL is unsafe\<close>
  "msg_unsafe_url = map char_of [0xE7, 0x9B, 0xAE, 0xE6, 0xA0, 0x87, 0x55, 0x52, 0x4C, 0xE4,
     0xB8, 0x8D, 0xE5, 0xAE, 0x89, 0xE5, 0x85, 0xA8 :: nat]"

definition msg_https_required :: string where
  \<comment> \<open>UTF-8 bytes of the source's message: the target URL must use HTTPS\<close>
  "msg_https_required = map char_of [0xE7, 0x9B, 0xAE, 0xE6, 0xA0, 0x87, 0x55, 0x52, 0x4C,
     0xE5, 0xBF, 0x85, 0xE9, 0xA1, 0xBB, 0xE4, 0xBD, 0xBF, 0xE7, 0x94, 0xA8, 0x48, 0x54, 0x54,
     0x50, 0x53, 0xE5, 0x8D, 0x8F, 0xE8, 0xAE, 0xAE :: nat]"

definition msg_no_proxy_available :: string where
  \<comment> \<open>UTF-8 bytes of the source's message: no proxy service available (rate limit or open circuit)\<close>
  "msg_no_proxy_available = map char_of [0xE6, 0xB2, 0xA1, 0xE6, 0x9C, 0x89, 0xE5, 0x8F, 0xAF,
     0xE7, 0x94, 0xA8, 0xE7, 0x9A, 0x84, 0xE4, 0xBB, 0xA3, 0xE7, 0x90, 0x86, 0xE6, 0x9C, 0x8D,
     0xE5, 0x8A, 0xA1, 0xEF, 0xBC, 0x88, 0xE9, 0x80, 0x9F, 0xE7, 0x8E, 0x87, 0xE9, 0x99, 0x90,
     0xE5, 0x88, 0xB6, 0xE6, 0x88, 0x96, 0xE6, 0x96, 0xAD, 0xE8, 0xB7, 0xAF, 0xE5, 0x99, 0xA8,
     0xE5, 0xBC, 0x80, 0xE5, 0x90, 0xAF, 0xEF, 0xBC, 0x89 :: nat]"

definition msg_all_failed_prefix :: string where
  \<comment> \<open>UTF-8 bytes of the source's message: all proxy services failed. Last error: \<close>
  "msg_all_failed_prefix = map char_of [0xE6, 0x89, 0x80, 0xE6, 0x9C, 0x89, 0xE4, 0xBB, 0xA3,
     0xE7, 0x90, 0x86, 0xE6, 0x9C, 0x8D, 0xE5, 0x8A, 0xA1, 0xE9, 0x83, 0xBD, 0xE5, 0xA4, 0xB1,
     0xE8, 0xB4, 0xA5, 0xE4, 0xBA, 0x86, 0xE3, 0x80, 0x82, 0xE6, 0x9C, 0x80, 0xE5, 0x90, 0x8E,
     0xE9, 0x94, 0x99, 0xE8, 0xAF, 0xAF, 0x3A, 0x20 :: nat]"

definition msg_cert_failed :: string where
  \<comment> \<open>UTF-8 bytes of the source's message: certificate verification failed, the connection may be unsafe\<close>
  "msg_cert_failed = map char_of [0x53, 0x53, 0x4C, 0xE8, 0xAF, 0x81, 0xE4, 0xB9, 0xA6, 0xE9,
     0xAA, 0x8C, 0xE8, 0xAF, 0x81, 0xE5, 0xA4, 0xB1, 0xE8, 0xB4, 0xA5, 0xEF, 0xBC, 0x8C, 0xE8,
     0xBF, 0x9E, 0xE6, 0x8E, 0xA5, 0xE5, 0x8F, 0xAF, 0xE8, 0x83, 0xBD, 0xE4, 0xB8, 0x8D, 0xE5,
     0xAE, 0x89, 0xE5, 0x85, 0xA8 :: nat]"

definition msg_security_blocked :: string where
  \<comment> \<open>UTF-8 bytes of the source's message: security check failed, operation blocked\<close>
  "msg_security_blocked = map char_of [0xE5, 0xAE, 0x89, 0xE5, 0x85, 0xA8, 0xE6, 0xA3, 0x80,
     0xE6, 0x9F, 0xA5, 0xE5, 0xA4, 0xB1, 0xE8, 0xB4, 0xA5, 0xEF, 0xBC, 0x8C, 0xE6, 0x93, 0x8D,
     0xE4, 0xBD, 0x9C, 0xE5, 0xB7, 0xB2, 0xE8, 0xA2, 0xAB, 0xE9, 0x98, 0xBB, 0xE6, 0xAD,
     0xA2 :: nat]"

definition msg_csp_blocked :: string where
  \<comment> \<open>UTF-8 bytes of the source's message: the content security policy blocked the request\<close>
  "msg_csp_blocked = map char_of [0xE5, 0x86, 0x85, 0xE5, 0xAE, 0xB9, 0xE5, 0xAE, 0x89, 0xE5,
     0x85, 0xA8, 0xE7, 0xAD, 0x96, 0xE7, 0x95, 0xA5, 0xE9, 0x98, 0xBB, 0xE6, 0xAD, 0xA2, 0xE4,
     0xBA, 0x86, 0xE8, 0xAF, 0xB7, 0xE6, 0xB1, 0x82 :: nat]"

definition msg_mixed_content :: string where
  \<comment> \<open>UTF-8 bytes of the source's message: mixed content detected, upgraded to HTTPS\<close>
  "msg_mixed_content = map char_of [0xE6, 0xA3, 0x80, 0xE6, 0xB5, 0x8B, 0xE5, 0x88, 0xB0, 0xE6,
     0xB7, 0xB7, 0xE5, 0x90, 0x88, 0xE5, 0x86, 0x85, 0xE5, 0xAE, 0xB9, 0xEF, 0xBC, 0x88, 0x48,
     0x54, 0x54, 0x50, 0x2F, 0x48, 0x54, 0x54, 0x50, 0x53, 0xEF, 0xBC, 0x89, 0xEF, 0xBC, 0x8C,
     0xE5, 0xB7, 0xB2, 0xE8, 0x87, 0xAA, 0xE5, 0x8A, 0xA8, 0xE5, 0x8D, 0x87, 0xE7, 0xBA, 0xA7,
     0xE5, 0x88, 0xB0, 0x48, 0x54, 0x54, 0x50, 0x53 :: nat]"

datatype security_action = Block | Upgrade | Warn

record security_result =
  canProceed :: bool
  sr_message :: string
  sr_action :: security_action

definition handleSecurityError :: "js_error \<Rightarrow> security_result" where
  "handleSecurityError error =
     (if str_includes (err_message error) ''Mixed Content'' then
        \<lparr>canProceed = True, sr_message = msg_mixed_content, sr_action = Upgrade\<rparr>
      else if str_includes (err_message error) ''certificate'' then
        \<lparr>canProceed = False, sr_message = msg_cert_failed, sr_action = Warn\<rparr>
      else if str_includes (err_message error) ''CSP'' then
        \<lparr>canProceed = False, sr_message = msg_csp_blocked, sr_action = Block\<rparr>
      else
        \<lparr>canProceed = False, sr_message = msg_security_blocked, sr_action = Block\<rparr>)"

text \<open>
  A configured forwarding endpoint. Times are milliseconds since the epoch, as
  \<open>Date.now()\<close> returns them.
\<close>

record proxy_service =
  svc_name :: string
  svc_url :: string
  svc_type :: string
  svc_timeout :: int
  rateLimit :: int
  lastUsed :: int
  requestCount :: int

record breaker =
  isOpen :: bool
  openedAt :: int
  cb_timeout :: int

text \<open>
  The fields of the service object. \<open>failureCount\<close> and \<open>circuitBreaker\<close> are the
  source's \<open>Map\<close>s, keyed by the endpoint's name.
\<close>

record proxy_state =
  proxyServices :: "proxy_service list"
  isInitialized :: bool
  failureCount :: "string \<rightharpoonup> nat"
  circuitBreaker :: "string \<rightharpoonup> breaker"

definition default_proxyServices :: "proxy_service list" where
  "default_proxyServices =
     [\<lparr>svc_name = ''AllOrigins'', svc_url = ''https://api.allorigins.win/get?url='',
       svc_type = ''allorigins'', svc_timeout = 10000, rateLimit = 100, lastUsed = 0,
       requestCount = 0\<rparr>,
      \<lparr>svc_name = ''CORS.SH'', svc_url = ''https://cors.sh/'',
       svc_type = ''cors-sh'', svc_timeout = 8000, rateLimit = 50, lastUsed = 0,
       requestCount = 0\<rparr>,
      \<lparr>svc_name = ''CORSProxy.io'', svc_url = ''https://corsproxy.io/?'',
       svc_type = ''corsproxy'', svc_timeout = 12000, rateLimit = 80, lastUsed = 0,
       requestCount = 0\<rparr>]"

definition new_ProxyService :: proxy_state where
  "new_ProxyService =
     \<lparr>proxyServices = default_proxyServices, isInitialized = False,
      failureCount = Map.empty, circuitBreaker = Map.empty\<rparr>"

definition failures_of :: "proxy_state \<Rightarrow> string \<Rightarrow> nat" where
  \<comment> \<open>\<open>this.failureCount.get(service.name) || 0\<close>\<close>
  "failures_of s name = (case failureCount s name of None \<Rightarrow> 0 | Some n \<Rightarrow> n)"

text \<open>
  \<open>recordFailure\<close> and \<open>recordSuccess\<close> read only the name of the service they are
  given; \<open>now\<close> is the value of \<open>Date.now()\<close> at the call.
\<close>

definition recordFailure :: "int \<Rightarrow> string \<Rightarrow> proxy_state \<Rightarrow> proxy_state" where
  "recordFailure now name s =
     (let failures = failures_of s name;
          s1 = s\<lparr>failureCount := (failureCount s)(name \<mapsto> failures + 1)\<rparr>
      in if failures \<ge> 3 then
           s1\<lparr>circuitBreaker := (circuitBreaker s1)(name \<mapsto>
                \<lparr>isOpen = True, openedAt = now, cb_timeout = 5 * 60 * 1000\<rparr>)\<rparr>
         else s1)"

definition recordSuccess :: "string \<Rightarrow> proxy_state \<Rightarrow> proxy_state" where
  "recordSuccess name s =
     s\<lparr>failureCount := (failureCount s)(name \<mapsto> 0),
       circuitBreaker := (circuitBreaker s)(name := None)\<rparr>"

definition isServiceAvailable :: "int \<Rightarrow> string \<Rightarrow> proxy_state \<Rightarrow> bool \<times> proxy_state" where
  "isServiceAvailable now name s =
     (case circuitBreaker s name of
        None \<Rightarrow> (True, s)
      | Some b \<Rightarrow>
          if now - openedAt b > cb_timeout b then
            (True, s\<lparr>circuitBreaker := (circuitBreaker s)(name := None)\<rparr>)
          else (False, s))"

definition resetRateLimits :: "proxy_state \<Rightarrow> proxy_state" where
  "resetRateLimits s =
     s\<lparr>proxyServices := map (\<lambda>service. service\<lparr>requestCount := 0\<rparr>) (proxyServices s)\<rparr>"

definition checkRateLimit :: "proxy_service \<Rightarrow> bool" where
  "checkRateLimit service = (requestCount service < rateLimit service)"

text \<open>
  \<open>selectBestProxy\<close>. The filter visits the services in order; its predicate may delete
  an expired breaker, so the state is threaded through. A service object is a reference
  into \<open>proxyServices\<close>: the model keeps its position in the list next to its value.
  The synchronous filter is taken to read one clock value.
  \<open>reduce\<close> without an initial value starts from the first element and replaces the
  best only by a strictly older one.
\<close>

fun filter_available ::
  "int \<Rightarrow> nat \<Rightarrow> proxy_service list \<Rightarrow> proxy_state
     \<Rightarrow> (nat \<times> proxy_service) list \<times> proxy_state" where
  "filter_available now i [] s = ([], s)"
| "filter_available now i (service # rest) s =
     (let (available, s1) = isServiceAvailable now (svc_name service) s;
          keep = (available \<and> checkRateLimit service);
          (kept, s2) = filter_available now (i + 1) rest s1
      in (if keep then (i, service) # kept else kept, s2))"

fun reduce_lru :: "nat \<times> proxy_service \<Rightarrow> (nat \<times> proxy_service) list \<Rightarrow> nat \<times> proxy_service" where
  "reduce_lru best [] = best"
| "reduce_lru best (current # rest) =
     reduce_lru (if lastUsed (snd current) < lastUsed (snd best) then current else best) rest"

definition selectBestProxy ::
  "int \<Rightarrow> proxy_state \<Rightarrow> (nat \<times> proxy_service) option \<times> proxy_state" where
  "selectBestProxy now s =
     (let (availableServices, s1) = filter_available now 0 (proxyServices s) s
      in case availableServices of
           [] \<Rightarrow> (None, s1)
         | first # rest \<Rightarrow> (Some (reduce_lru first rest), s1))"

text \<open>
  The injected security manager, as far as \<open>proxyGet\<close> uses it: the truthiness of
  \<open>validateURLSafety(url)\<close> and the result of \<open>validateHTTPS(url)\<close>.
\<close>

record security_manager =
  validateURLSafety :: "string \<Rightarrow> bool"
  validateHTTPS :: "string \<Rightarrow> bool"

definition upgrade_http :: "string \<Rightarrow> string" where
  \<comment> \<open>\<open>url.replace(/^http:/, 'https:')\<close>\<close>
  "upgrade_http url = (if take 5 url = ''http:'' then ''https:'' @ drop 5 url else url)"

text \<open>
  One iteration of the dispatch loop, as the environment determines it:
  the clock read by \<open>selectBestProxy\<close>; the outcome of the guarded body of
  \<open>makeProxyRequest\<close> (the awaited \<open>errorHandler.handleNetworkError\<close> call followed by
  \<open>validateResponse\<close>), \<open>Inl\<close> for a thrown error and \<open>Inr\<close> for the response; the clock
  read by the \<open>recordFailure\<close> in \<open>makeProxyRequest\<close>'s handler; and the clock read by
  \<open>proxyGet\<close> after the attempt (for \<open>lastUsed\<close> on success, for \<open>recordFailure\<close> on
  failure). The loop is modelled for either outcome of the guarded body; the handler of
  this repository, given the seed error of \<open>makeProxyRequest\<close>, makes it throw.
\<close>

record 'r attempt =
  select_now :: int
  body :: "js_error + 'r"
  inner_now :: int
  outer_now :: int

definition rethrown :: "js_error \<Rightarrow> js_error" where
  \<comment> \<open>what the handler of \<open>makeProxyRequest\<close> throws for a caught error\<close>
  "rethrown error =
     (if str_includes (err_message error) ''certificate'' \<or> str_includes (err_message error) ''SSL''
      then (let securityResult = handleSecurityError error
            in if \<not> canProceed securityResult then new_Error (sr_message securityResult)
               else error)
      else error)"

definition makeProxyRequest ::
  "string \<Rightarrow> 'r attempt \<Rightarrow> proxy_state \<Rightarrow> (js_error + 'r) \<times> proxy_state" where
  "makeProxyRequest name a s =
     (case body a of
        Inr response \<Rightarrow> (Inr response, s)
      | Inl error \<Rightarrow> (Inl (rethrown error), recordFailure (inner_now a) name s))"

fun update_at :: "nat \<Rightarrow> ('a \<Rightarrow> 'a) \<Rightarrow> 'a list \<Rightarrow> 'a list" where
  "update_at i f [] = []"
| "update_at 0 f (x # xs) = f x # xs"
| "update_at (Suc i) f (x # xs) = x # update_at i f xs"

definition mark_used :: "int \<Rightarrow> proxy_service \<Rightarrow> proxy_service" where
  \<comment> \<open>\<open>service.lastUsed = Date.now(); service.requestCount++\<close>\<close>
  "mark_used now service = service\<lparr>lastUsed := now, requestCount := requestCount service + 1\<rparr>"

text \<open>
  The body of the \<open>while\<close> loop of \<open>proxyGet\<close>: either the call is over (an error thrown
  out of the loop, or the response returned), or the loop goes on with the error of the
  failed attempt. The second component is the position of the service that was tried.
\<close>

datatype 'r loop_step = Done "js_error + 'r" | Continue js_error

definition proxyGet_attempt ::
  "'r attempt \<Rightarrow> proxy_state \<Rightarrow> 'r loop_step \<times> nat option \<times> proxy_state" where
  "proxyGet_attempt a s =
     (let (selected, s1) = selectBestProxy (select_now a) s
      in case selected of
           None \<Rightarrow> (Done (Inl (new_Error msg_no_proxy_available)), None, s1)
         | Some (i, service) \<Rightarrow>
             (case makeProxyRequest (svc_name service) a s1 of
                (Inr response, s2) \<Rightarrow>
                  (Done (Inr response), Some i,
                   recordSuccess (svc_name service)
                     (s2\<lparr>proxyServices := update_at i (mark_used (outer_now a)) (proxyServices s2)\<rparr>))
              | (Inl error, s2) \<Rightarrow>
                  (Continue error, Some i, recordFailure (outer_now a) (svc_name service) s2)))"

definition undefined_message_error :: js_error where
  \<comment> \<open>reading \<open>lastError.message\<close> while \<open>lastError\<close> is still \<open>undefined\<close>\<close>
  "undefined_message_error =
     new_TypeError ''Cannot read properties of undefined (reading 'message')''"

text \<open>
  The loop. \<open>env k\<close> is the environment of the iteration entered with \<open>attempts = k\<close>;
  \<open>tried\<close> collects the positions of the services on which a request was made.
\<close>

function proxyGet_loop ::
  "(nat \<Rightarrow> 'r attempt) \<Rightarrow> nat \<Rightarrow> nat \<Rightarrow> js_error option \<Rightarrow> nat list \<Rightarrow> proxy_state
     \<Rightarrow> (js_error + 'r) \<times> nat list \<times> proxy_state" where
  "proxyGet_loop env attempts maxAttempts lastError tried s =
     (if attempts < maxAttempts then
        (case proxyGet_attempt (env attempts) s of
           (Done result, None, s1) \<Rightarrow> (result, tried, s1)
         | (Done result, Some i, s1) \<Rightarrow> (result, tried @ [i], s1)
         | (Continue error, None, s1) \<Rightarrow>
             proxyGet_loop env (attempts + 1) maxAttempts (Some error) tried s1
         | (Continue error, Some i, s1) \<Rightarrow>
             proxyGet_loop env (attempts + 1) maxAttempts (Some error) (tried @ [i]) s1)
      else
        (case lastError of
           None \<Rightarrow> (Inl undefined_message_error, tried, s)
         | Some e \<Rightarrow> (Inl (new_Error (msg_all_failed_prefix @ err_message e)), tried, s)))"
  by pat_completeness auto
termination
  by (relation "measure (\<lambda>(env, attempts, maxAttempts, lastError, tried, s).
        maxAttempts - attempts)") auto

declare proxyGet_loop.simps [simp del]

definition proxyGet ::
  "security_manager \<Rightarrow> (nat \<Rightarrow> 'r attempt) \<Rightarrow> string \<Rightarrow> proxy_state
     \<Rightarrow> (js_error + 'r) \<times> nat list \<times> proxy_state" where
  "proxyGet securityManager env url s =
     (if \<not> isInitialized s then (Inl (new_Error msg_not_initialized), [], s)
      else if \<not> validateURLSafety securityManager url then
        (Inl (new_Error msg_unsafe_url), [], s)
      else if validateHTTPS securityManager url
              \<or> validateHTTPS securityManager (upgrade_http url) then
        proxyGet_loop env 0 (length (proxyServices s)) None [] s
      else (Inl (new_Error msg_https_required), [], s))"

text \<open>
  A concrete service for the examples: the constructor's three endpoints, initialised,
  behind a security manager that accepts every URL with the \<open>https:\<close> scheme.
\<close>

definition initialized_ProxyService :: proxy_state where
  "initialized_ProxyService = new_ProxyService\<lparr>isInitialized := True\<rparr>"

definition https_only :: security_manager where
  "https_only =
     \<lparr>validateURLSafety = (\<lambda>url. True), validateHTTPS = (\<lambda>url. take 6 url = ''https:'')\<rparr>"

definition failing_attempts :: "nat \<Rightarrow> string attempt" where
  \<comment> \<open>every attempt throws what \<open>handleNetworkError\<close> throws for its seed error\<close>
  "failing_attempts k =
     \<lparr>select_now = 1000 + 100 * int k, body = Inl (new_Error msg_unknown),
      inner_now = 1010 + 100 * int k, outer_now = 1020 + 100 * int k\<rparr>"


text \<open>
  The state in which the loop enters the iteration with \<open>attempts = k\<close>, when every
  earlier iteration made a request that failed, and what \<open>selectBestProxy\<close> returns
  there.
\<close>

fun state_before :: "(nat \<Rightarrow> 'r attempt) \<Rightarrow> proxy_state \<Rightarrow> nat \<Rightarrow> proxy_state" where
  "state_before env s 0 = s"
| "state_before env s (Suc k) = snd (snd (proxyGet_attempt (env k) (state_before env s k)))"

definition selected_at ::
  "(nat \<Rightarrow> 'r attempt) \<Rightarrow> proxy_state \<Rightarrow> nat \<Rightarrow> (nat \<times> proxy_service) option" where
  "selected_at env s k = fst (selectBestProxy (select_now (env k)) (state_before env s k))"

definition fail_then_succeed :: "nat \<Rightarrow> string attempt" where
  \<comment> \<open>the first request fails, the second returns a response\<close>
  "fail_then_succeed k =
     \<lparr>select_now = 1000 + 100 * int k,
      body = (if k = 0 then Inl (new_Error ''HTTP 500: Internal Server Error'')
              else Inr ''response''),
      inner_now = 1010 + 100 * int k, outer_now = 1020 + 100 * int k\<rparr>"

definition rate_limited_ProxyService :: proxy_state where
  \<comment> \<open>every endpoint has used up its budget for the minute\<close>
  "rate_limited_ProxyService =
     initialized_ProxyService
       \<lparr>proxyServices :=
          map (\<lambda>service. service\<lparr>requestCount := rateLimit service\<rparr>) default_proxyServices\<rparr>"

section \<open>DownloadManager: the transfer scheduler\<close>

text \<open>
  The scheduler for file tasks (types \<open>media\<close> and \<open>pdf\<close>), which are the tasks that
  pass through the queue on submission. A task object lives in the \<open>downloads\<close> map
  under its id; the queue and the pending continuations refer to it by that id.
\<close>

datatype task_type = Media | Pdf

datatype task_status =
  Pending | Queued | Downloading | Completed | Retrying | Failed | Cancelled

record download_task =
  task_id :: string
  kind :: task_type
  task_url :: string
  filename :: string
  status :: task_status
  progress :: int
  startTime :: int
  retryCount :: nat
  lastUpdate :: "int option"
  task_error :: "string option"
  completedTime :: "int option"
  duration :: "int option"

text \<open>
  The manager's fields, followed by what the JavaScript runtime holds for it:
  \<open>inFlight\<close> lists the tasks whose \<open>executeDownload\<close> is suspended at its \<open>await\<close>
  of the transfer, \<open>retryTimers\<close> the tasks for which a retry timeout is pending.
\<close>

record download_manager =
  downloads :: "string \<rightharpoonup> download_task"
  dm_isInitialized :: bool
  maxConcurrentDownloads :: int
  activeDownloads :: int
  downloadQueue :: "string list"
  dm_retryAttempts :: nat
  inFlight :: "string list"
  retryTimers :: "string list"

definition msg_dm_not_initialized :: string where
  \<comment> \<open>UTF-8 bytes of the source's message: the download manager is not initialised\<close>
  "msg_dm_not_initialized = map char_of [0xE4, 0xB8, 0x8B, 0xE8, 0xBD, 0xBD, 0xE7, 0xAE, 0xA1,
     0xE7, 0x90, 0x86, 0xE5, 0x99, 0xA8, 0xE6, 0x9C, 0xAA, 0xE5, 0x88, 0x9D, 0xE5, 0xA7, 0x8B,
     0xE5, 0x8C, 0x96 :: nat]"

definition new_DownloadManager :: download_manager where
  "new_DownloadManager =
     \<lparr>downloads = Map.empty, dm_isInitialized = False, maxConcurrentDownloads = 3,
      activeDownloads = 0, downloadQueue = [], dm_retryAttempts = 3, inFlight = [],
      retryTimers = []\<rparr>"

definition initialize :: "download_manager \<Rightarrow> download_manager" where
  "initialize s = s\<lparr>dm_isInitialized := True\<rparr>"

definition updateDownloadStatus ::
  "int \<Rightarrow> string \<Rightarrow> task_status \<Rightarrow> string option \<Rightarrow> download_manager \<Rightarrow> download_manager" where
  "updateDownloadStatus now downloadId st error s =
     (case downloads s downloadId of
        None \<Rightarrow> s
      | Some download \<Rightarrow>
          (let d1 = download\<lparr>status := st, lastUpdate := Some now\<rparr>;
               d2 = (case error of
                       None \<Rightarrow> d1
                     | Some e \<Rightarrow> if e = [] then d1 else d1\<lparr>task_error := Some e\<rparr>);
               d3 = (if st = Completed
                     then d2\<lparr>completedTime := Some now, duration := Some (now - startTime d2)\<rparr>
                     else d2)
           in s\<lparr>downloads := (downloads s)(downloadId \<mapsto> d3)\<rparr>))"

text \<open>
  \<open>executeDownload\<close> runs in two segments. The first runs up to the \<open>await\<close> of the
  transfer; the second is entered when the transfer settles, with \<open>None\<close> for a
  fulfilled transfer and \<open>Some error\<close> for a rejected one, and ends with the
  \<open>finally\<close> block. How the transfer settles, and when, is the environment's choice.
\<close>

definition executeDownload_begin :: "int \<Rightarrow> string \<Rightarrow> download_manager \<Rightarrow> download_manager" where
  "executeDownload_begin now downloadId s =
     (let s1 = s\<lparr>activeDownloads := activeDownloads s + 1\<rparr>;
          s2 = updateDownloadStatus now downloadId Downloading None s1
      in s2\<lparr>inFlight := inFlight s2 @ [downloadId]\<rparr>)"

definition processQueue :: "int \<Rightarrow> download_manager \<Rightarrow> download_manager" where
  "processQueue now s =
     (case downloadQueue s of
        [] \<Rightarrow> s
      | nextTask # rest \<Rightarrow>
          if activeDownloads s < maxConcurrentDownloads s
          then executeDownload_begin now nextTask (s\<lparr>downloadQueue := rest\<rparr>)
          else s)"

definition executeDownload_end ::
  "int \<Rightarrow> string \<Rightarrow> js_error option \<Rightarrow> download_manager \<Rightarrow> download_manager option" where
  \<comment> \<open>\<open>None\<close>: the task object is not in the map; nothing modelled here removes one\<close>
  "executeDownload_end now downloadId outcome s =
     (case downloads s downloadId of
        None \<Rightarrow> None
      | Some downloadTask \<Rightarrow>
          (let s1 = (case outcome of
                       None \<Rightarrow> updateDownloadStatus now downloadId Completed None s
                     | Some error \<Rightarrow>
                         if retryCount downloadTask < dm_retryAttempts s then
                           (let s' = s\<lparr>downloads := (downloads s)(downloadId \<mapsto>
                                  downloadTask\<lparr>retryCount := retryCount downloadTask + 1\<rparr>)\<rparr>;
                                s'' = updateDownloadStatus now downloadId Retrying None s'
                            in s''\<lparr>retryTimers := retryTimers s'' @ [downloadId]\<rparr>)
                         else updateDownloadStatus now downloadId Failed
                                (Some (err_message error)) s);
               s2 = s1\<lparr>activeDownloads := activeDownloads s1 - 1\<rparr>
           in Some (processQueue now s2)))"

definition queueDownload :: "int \<Rightarrow> string \<Rightarrow> download_manager \<Rightarrow> download_manager" where
  "queueDownload now downloadId s =
     (if activeDownloads s < maxConcurrentDownloads s
      then executeDownload_begin now downloadId s
      else updateDownloadStatus now downloadId Queued None
             (s\<lparr>downloadQueue := downloadQueue s @ [downloadId]\<rparr>))"

text \<open>
  \<open>downloadMediaFile\<close> and \<open>downloadPDFFile\<close> differ only in the task's type.
  \<open>downloadId\<close> is the value of \<open>generateDownloadId()\<close>. The result is the id, which the
  returned promise resolves to; a rejected promise is \<open>Inl\<close>.
\<close>

definition submitDownload ::
  "task_type \<Rightarrow> int \<Rightarrow> string \<Rightarrow> string \<Rightarrow> string \<Rightarrow> download_manager
     \<Rightarrow> (js_error + string) \<times> download_manager" where
  "submitDownload ty now downloadId url name s =
     (if \<not> dm_isInitialized s then (Inl (new_Error msg_dm_not_initialized), s)
      else
        (let downloadTask =
               \<lparr>task_id = downloadId, kind = ty, task_url = url, filename = name,
                status = Pending, progress = 0, startTime = now, retryCount = 0,
                lastUpdate = None, task_error = None, completedTime = None, duration = None\<rparr>;
             s1 = s\<lparr>downloads := (downloads s)(downloadId \<mapsto> downloadTask)\<rparr>
         in (Inr downloadId, queueDownload now downloadId s1)))"

definition downloadMediaFile ::
  "int \<Rightarrow> string \<Rightarrow> string \<Rightarrow> string \<Rightarrow> download_manager
     \<Rightarrow> (js_error + string) \<times> download_manager" where
  "downloadMediaFile = submitDownload Media"

definition downloadPDFFile ::
  "int \<Rightarrow> string \<Rightarrow> string \<Rightarrow> string \<Rightarrow> download_manager
     \<Rightarrow> (js_error + string) \<times> download_manager" where
  "downloadPDFFile = submitDownload Pdf"

definition cancelDownload :: "int \<Rightarrow> string \<Rightarrow> download_manager \<Rightarrow> download_manager" where
  "cancelDownload now downloadId s =
     (case downloads s downloadId of
        None \<Rightarrow> s
      | Some download \<Rightarrow>
          if status download = Downloading \<or> status download = Queued then
            (let s1 = updateDownloadStatus now downloadId Cancelled None s
             in s1\<lparr>downloadQueue := remove1 downloadId (downloadQueue s1)\<rparr>)
          else s)"

definition retryDownload :: "int \<Rightarrow> string \<Rightarrow> download_manager \<Rightarrow> download_manager" where
  "retryDownload now downloadId s =
     (case downloads s downloadId of
        None \<Rightarrow> s
      | Some download \<Rightarrow>
          if status download = Failed then
            queueDownload now downloadId
              (s\<lparr>downloads := (downloads s)(downloadId \<mapsto>
                    download\<lparr>retryCount := 0, status := Pending, progress := 0,
                              task_error := None\<rparr>)\<rparr>)
          else s)"

text \<open>
  \<open>getDownloadProgress\<close> returns \<open>null\<close> (here \<open>None\<close>) or a fresh object, given by
  its properties in the order of the object literal. Reading a property that an object
  does not have yields \<open>undefined\<close>.
\<close>

datatype js_value = JString string | JNumber int | JNull | JUndefined

definition type_name :: "task_type \<Rightarrow> string" where
  "type_name ty = (case ty of Media \<Rightarrow> ''media'' | Pdf \<Rightarrow> ''pdf'')"

definition status_name :: "task_status \<Rightarrow> string" where
  "status_name st =
     (case st of
        Pending \<Rightarrow> ''pending'' | Queued \<Rightarrow> ''queued'' | Downloading \<Rightarrow> ''downloading''
      | Completed \<Rightarrow> ''completed'' | Retrying \<Rightarrow> ''retrying'' | Failed \<Rightarrow> ''failed''
      | Cancelled \<Rightarrow> ''cancelled'')"

definition get_property :: "(string \<times> js_value) list \<Rightarrow> string \<Rightarrow> js_value" where
  "get_property obj key = (case map_of obj key of None \<Rightarrow> JUndefined | Some v \<Rightarrow> v)"

definition getDownloadProgress ::
  "download_manager \<Rightarrow> string \<Rightarrow> (string \<times> js_value) list option" where
  "getDownloadProgress s downloadId =
     (case downloads s downloadId of
        None \<Rightarrow> None
      | Some download \<Rightarrow>
          Some [(''id'', JString (task_id download)),
                (''type'', JString (type_name (kind download))),
                (''filename'', JString (filename download)),
                (''status'', JString (status_name (status download))),
                (''progress'', JNumber (progress download)),
                (''startTime'', JNumber (startTime download)),
                (''lastUpdate'', (case lastUpdate download of
                                    None \<Rightarrow> JUndefined
                                  | Some t \<Rightarrow> JNumber t)),
                (''retryCount'', JNumber (int (retryCount download))),
                (''error'', (case task_error download of
                               None \<Rightarrow> JNull
                             | Some e \<Rightarrow> if e = [] then JNull else JString e)),
                (''duration'', (case duration download of
                                  None \<Rightarrow> JNull
                                | Some d \<Rightarrow> if d = 0 then JNull else JNumber d))])"

definition read_back :: "download_manager \<Rightarrow> string \<Rightarrow> string \<Rightarrow> js_value option" where
  \<comment> \<open>\<open>getDownloadProgress(downloadId)[key]\<close>, \<open>None\<close> when there is no such task\<close>
  "read_back s downloadId key =
     (case getDownloadProgress s downloadId of
        None \<Rightarrow> None
      | Some p \<Rightarrow> Some (get_property p key))"

text \<open>
  What can happen to the manager, one event at a time: a caller submits, cancels or
  retries a task, the transfer of a task in flight settles, or a pending retry timeout
  fires and calls \<open>executeDownload\<close> again. An event that cannot happen in the state
  (no such continuation or timeout is pending) yields \<open>None\<close>.
\<close>

datatype event =
  Submit task_type string string string
| TransferEnds string "js_error option"
| RetryTimerFires string
| CancelDownload string
| RetryDownload string

definition handle_event :: "int \<Rightarrow> event \<Rightarrow> download_manager \<Rightarrow> download_manager option" where
  "handle_event now e s =
     (case e of
        Submit ty downloadId url name \<Rightarrow> Some (snd (submitDownload ty now downloadId url name s))
      | TransferEnds downloadId outcome \<Rightarrow>
          if downloadId \<in> set (inFlight s) then
            executeDownload_end now downloadId outcome
              (s\<lparr>inFlight := remove1 downloadId (inFlight s)\<rparr>)
          else None
      | RetryTimerFires downloadId \<Rightarrow>
          if downloadId \<in> set (retryTimers s) then
            Some (executeDownload_begin now downloadId
                    (s\<lparr>retryTimers := remove1 downloadId (retryTimers s)\<rparr>))
          else None
      | CancelDownload downloadId \<Rightarrow> Some (cancelDownload now downloadId s)
      | RetryDownload downloadId \<Rightarrow> Some (retryDownload now downloadId s))"

fun run_events :: "(int \<times> event) list \<Rightarrow> download_manager \<Rightarrow> download_manager option" where
  "run_events [] s = Some s"
| "run_events ((now, e) # rest) s =
     (case handle_event now e s of None \<Rightarrow> None | Some s' \<Rightarrow> run_events rest s')"

definition status_of :: "download_manager \<Rightarrow> string \<Rightarrow> task_status option" where
  "status_of s downloadId = map_option status (downloads s downloadId)"

definition status_after ::
  "(int \<times> event) list \<Rightarrow> download_manager \<Rightarrow> string \<Rightarrow> task_status option" where
  "status_after events s downloadId =
     (case run_events events s of None \<Rightarrow> None | Some s' \<Rightarrow> status_of s' downloadId)"

definition resubmits :: "string \<Rightarrow> event \<Rightarrow> bool" where
  \<comment> \<open>a later submission for which \<open>generateDownloadId\<close> produced the same id again\<close>
  "resubmits downloadId e =
     (case e of Submit ty downloadId' url name \<Rightarrow> downloadId' = downloadId | _ \<Rightarrow> False)"

definition is_retry_timer :: "event \<Rightarrow> bool" where
  "is_retry_timer e = (case e of RetryTimerFires downloadId \<Rightarrow> True | _ \<Rightarrow> False)"

text \<open>
  Scenarios for the examples. In the first, task A fails once and waits for its retry
  timeout; meanwhile B, C and D are submitted and their transfers are still awaited when
  the timeout fires.
  In the others, task A is cancelled while it is downloading, and then its transfer
  settles.
\<close>

definition retry_reentry_scenario :: "(int \<times> event) list" where
  "retry_reentry_scenario =
     [(0, Submit Media ''A'' ''https://example.com/a.mp4'' ''a.mp4''),
      (10, TransferEnds ''A'' (Some (new_Error ''HTTP 500''))),
      (20, Submit Media ''B'' ''https://example.com/b.mp4'' ''b.mp4''),
      (30, Submit Media ''C'' ''https://example.com/c.mp4'' ''c.mp4''),
      (40, Submit Media ''D'' ''https://example.com/d.mp4'' ''d.mp4''),
      (2010, RetryTimerFires ''A'')]"

definition cancel_scenario :: "(int \<times> event) list" where
  "cancel_scenario =
     [(0, Submit Media ''A'' ''https://example.com/a.mp4'' ''a.mp4''),
      (5, CancelDownload ''A'')]"

definition cancel_then_success_scenario :: "(int \<times> event) list" where
  "cancel_then_success_scenario = cancel_scenario @ [(10, TransferEnds ''A'' None)]"

definition cancel_then_failure_scenario :: "(int \<times> event) list" where
  "cancel_then_failure_scenario =
     cancel_scenario @ [(10, TransferEnds ''A'' (Some (new_Error ''HTTP 500'')))]"

text \<open>
  The map holds, under the given id, a task with that id, target URL and file name.
\<close>

definition holds_task :: "download_manager \<Rightarrow> string \<Rightarrow> string \<Rightarrow> string \<Rightarrow> bool" where
  "holds_task s downloadId url name =
     (case downloads s downloadId of
        None \<Rightarrow> False
      | Some task \<Rightarrow> task_id task = downloadId \<and> task_url task = url \<and> filename task = name)"

definition status_changes :: "(int \<times> event) list" where
  \<comment> \<open>events after the submission of task A in the round-trip example\<close>
  "status_changes =
     [(5, CancelDownload ''A''),
      (7, Submit Pdf ''B'' ''https://example.com/b.pdf'' ''b.pdf''),
      (10, TransferEnds ''A'' (Some (new_Error ''HTTP 500''))),
      (2010, RetryTimerFires ''A''),
      (2500, TransferEnds ''A'' None)]"

subsection \<open>The transfer as the manager runs it\<close>

text \<open>
  \<open>handleMobileError\<close> of the ErrorHandler, over the value of \<open>navigator.userAgent\<close>.
  The first test ignores case; its alternatives are ASCII, so folding ASCII letters is
  enough.
\<close>

definition msg_ios_blob :: string where
  \<comment> \<open>UTF-8 bytes of the source's message: iOS cannot download directly, long-press the link\<close>
  "msg_ios_blob = map char_of [0x69, 0x4F, 0x53, 0xE8, 0xAE, 0xBE, 0xE5, 0xA4, 0x87, 0xE4,
     0xB8, 0x8D, 0xE6, 0x94, 0xAF, 0xE6, 0x8C, 0x81, 0xE7, 0x9B, 0xB4, 0xE6, 0x8E, 0xA5, 0xE4,
     0xB8, 0x8B, 0xE8, 0xBD, 0xBD, 0xEF, 0xBC, 0x8C, 0xE8, 0xAF, 0xB7, 0xE9, 0x95, 0xBF, 0xE6,
     0x8C, 0x89, 0xE9, 0x93, 0xBE, 0xE6, 0x8E, 0xA5, 0xE9, 0x80, 0x89, 0xE6, 0x8B, 0xA9, 0x22,
     0xE4, 0xB8, 0x8B, 0xE8, 0xBD, 0xBD, 0xE9, 0x93, 0xBE, 0xE6, 0x8E, 0xA5, 0xE6, 0x96, 0x87,
     0xE4, 0xBB, 0xB6, 0x22 :: nat]"

definition msg_ios_storage :: string where
  \<comment> \<open>UTF-8 bytes of the source's message: iOS device storage is full\<close>
  "msg_ios_storage = map char_of [0x69, 0x4F, 0x53, 0xE8, 0xAE, 0xBE, 0xE5, 0xA4, 0x87, 0xE5,
     0xAD, 0x98, 0xE5, 0x82, 0xA8, 0xE7, 0xA9, 0xBA, 0xE9, 0x97, 0xB4, 0xE4, 0xB8, 0x8D, 0xE8,
     0xB6, 0xB3, 0xEF, 0xBC, 0x8C, 0xE8, 0xAF, 0xB7, 0xE6, 0xB8, 0x85, 0xE7, 0x90, 0x86, 0xE5,
     0x90, 0x8E, 0xE9, 0x87, 0x8D, 0xE8, 0xAF, 0x95 :: nat]"

definition msg_android_permission :: string where
  \<comment> \<open>UTF-8 bytes of the source's message: Android needs the download permission\<close>
  "msg_android_permission = map char_of [0x41, 0x6E, 0x64, 0x72, 0x6F, 0x69, 0x64, 0xE8, 0xAE,
     0xBE, 0xE5, 0xA4, 0x87, 0xE9, 0x9C, 0x80, 0xE8, 0xA6, 0x81, 0xE4, 0xB8, 0x8B, 0xE8, 0xBD,
     0xBD, 0xE6, 0x9D, 0x83, 0xE9, 0x99, 0x90, 0xEF, 0xBC, 0x8C, 0xE8, 0xAF, 0xB7, 0xE5, 0x9C,
     0xA8, 0xE8, 0xAE, 0xBE, 0xE7, 0xBD, 0xAE, 0xE4, 0xB8, 0xAD, 0xE5, 0x85, 0x81, 0xE8, 0xAE,
     0xB8 :: nat]"

definition msg_android_storage :: string where
  \<comment> \<open>UTF-8 bytes of the source's message: Android device storage is full\<close>
  "msg_android_storage = map char_of [0x41, 0x6E, 0x64, 0x72, 0x6F, 0x69, 0x64, 0xE8, 0xAE,
     0xBE, 0xE5, 0xA4, 0x87, 0xE5, 0xAD, 0x98, 0xE5, 0x82, 0xA8, 0xE7, 0xA9, 0xBA, 0xE9, 0x97,
     0xB4, 0xE4, 0xB8, 0x8D, 0xE8, 0xB6, 0xB3, 0xEF, 0xBC, 0x8C, 0xE8, 0xAF, 0xB7, 0xE6, 0xB8,
     0x85, 0xE7, 0x90, 0x86, 0xE5, 0x90, 0x8E, 0xE9, 0x87, 0x8D, 0xE8, 0xAF, 0x95 :: nat]"

definition msg_memory :: string where
  \<comment> \<open>UTF-8 bytes of the source's message: the device is out of memory\<close>
  "msg_memory = map char_of [0xE8, 0xAE, 0xBE, 0xE5, 0xA4, 0x87, 0xE5, 0x86, 0x85, 0xE5, 0xAD,
     0x98, 0xE4, 0xB8, 0x8D, 0xE8, 0xB6, 0xB3, 0xEF, 0xBC, 0x8C, 0xE8, 0xAF, 0xB7, 0xE5, 0x85,
     0xB3, 0xE9, 0x97, 0xAD, 0xE5, 0x85, 0xB6, 0xE4, 0xBB, 0x96, 0xE5, 0xBA, 0x94, 0xE7, 0x94,
     0xA8, 0xE5, 0x90, 0x8E, 0xE9, 0x87, 0x8D, 0xE8, 0xAF, 0x95 :: nat]"

definition msg_mobile_generic :: string where
  \<comment> \<open>UTF-8 bytes of the source's message: an error occurred on the mobile device\<close>
  "msg_mobile_generic = map char_of [0xE7, 0xA7, 0xBB, 0xE5, 0x8A, 0xA8, 0xE8, 0xAE, 0xBE,
     0xE5, 0xA4, 0x87, 0xE5, 0x8F, 0x91, 0xE7, 0x94, 0x9F, 0xE9, 0x94, 0x99, 0xE8, 0xAF, 0xAF,
     0xEF, 0xBC, 0x8C, 0xE8, 0xAF, 0xB7, 0xE9, 0x87, 0x8D, 0xE5, 0x90, 0xAF, 0xE5, 0xBA, 0x94,
     0xE7, 0x94, 0xA8, 0xE5, 0x90, 0x8E, 0xE9, 0x87, 0x8D, 0xE8, 0xAF, 0x95 :: nat]"

definition ascii_lower :: "char \<Rightarrow> char" where
  "ascii_lower c =
     (if 65 \<le> (of_char c :: nat) \<and> (of_char c :: nat) \<le> 90
      then char_of ((of_char c :: nat) + 32) else c)"

definition userAgent_is_mobile :: "string \<Rightarrow> bool" where
  \<comment> \<open>\<open>/Android|webOS|iPhone|iPad|iPod|BlackBerry|IEMobile|Opera Mini/i.test(userAgent)\<close>\<close>
  "userAgent_is_mobile userAgent =
     (let l = map ascii_lower userAgent
      in str_includes l ''android'' \<or> str_includes l ''webos'' \<or> str_includes l ''iphone''
         \<or> str_includes l ''ipad'' \<or> str_includes l ''ipod'' \<or> str_includes l ''blackberry''
         \<or> str_includes l ''iemobile'' \<or> str_includes l ''opera mini'')"

definition userAgent_is_ios :: "string \<Rightarrow> bool" where
  \<comment> \<open>\<open>/iPad|iPhone|iPod/.test(userAgent)\<close>\<close>
  "userAgent_is_ios userAgent =
     (str_includes userAgent ''iPad'' \<or> str_includes userAgent ''iPhone''
      \<or> str_includes userAgent ''iPod'')"

definition userAgent_is_android :: "string \<Rightarrow> bool" where
  \<comment> \<open>\<open>/Android/.test(userAgent)\<close>\<close>
  "userAgent_is_android userAgent = str_includes userAgent ''Android''"

definition handleMobileError :: "string \<Rightarrow> js_error \<Rightarrow> string \<Rightarrow> string" where
  "handleMobileError userAgent error operation =
     (if \<not> userAgent_is_mobile userAgent then generateUserFriendlyMessage (analyzeError error)
      else if userAgent_is_ios userAgent \<and> operation = ''download''
              \<and> str_includes (err_message error) ''blob'' then msg_ios_blob
      else if userAgent_is_ios userAgent \<and> str_includes (err_message error) ''storage''
        then msg_ios_storage
      else if userAgent_is_android userAgent \<and> operation = ''download''
              \<and> str_includes (err_message error) ''permission'' then msg_android_permission
      else if userAgent_is_android userAgent \<and> str_includes (err_message error) ''storage''
        then msg_android_storage
      else if str_includes (err_message error) ''memory'' then msg_memory
      else msg_mobile_generic)"

text \<open>
  \<open>executeFileDownload\<close>. The download itself (\<open>downloadFunction\<close>, which would await
  the network) is handed to \<open>handleNetworkError\<close> together with a fixed seed error;
  \<open>deviceInfo\<close> is what the injected mobile manager reports. The result carries the
  handler afterwards and the record of what \<open>handleNetworkError\<close> invoked.
\<close>

record device_info =
  isIOS :: bool
  isAndroid :: bool

definition executeFileDownload ::
  "error_handler \<Rightarrow> device_info \<Rightarrow> string \<Rightarrow> string \<Rightarrow> (nat \<Rightarrow> js_error + 'a)
     \<Rightarrow> (js_error + 'a) \<times> error_handler \<times> retry_trace" where
  "executeFileDownload h deviceInfo userAgent downloadId downloadFunction =
     (case handleNetworkError h (new_Error ''Download preparation'')
             (''download-'' @ downloadId) downloadFunction of
        (Inr result, h', tr) \<Rightarrow> (Inr result, h', tr)
      | (Inl error, h', tr) \<Rightarrow>
          if isIOS deviceInfo \<or> isAndroid deviceInfo
          then (Inl (new_Error (handleMobileError userAgent error ''download'')), h', tr)
          else (Inl error, h', tr))"

text \<open>
  The runs of the manager as it is assembled. Whatever the handler, the device and the
  download function, \<open>executeFileDownload\<close> rejects without invoking the download
  function, so the promise that \<open>executeDownload\<close> awaits is settled when it is
  created and the second segment of \<open>executeDownload\<close> runs among the microtasks of the
  same turn of the event loop. A timeout callback runs in a turn of its own, after those
  microtasks: when a retry timeout fires, no transfer is in flight. Calls from outside
  and settling transfers may interleave in any order.
\<close>

definition occurs_as_assembled :: "download_manager \<Rightarrow> event \<Rightarrow> bool" where
  "occurs_as_assembled s e =
     (case e of RetryTimerFires downloadId \<Rightarrow> inFlight s = [] | _ \<Rightarrow> True)"

fun run_assembled :: "(int \<times> event) list \<Rightarrow> download_manager \<Rightarrow> download_manager option" where
  "run_assembled [] s = Some s"
| "run_assembled ((now, e) # rest) s =
     (if occurs_as_assembled s e
      then (case handle_event now e s of
              None \<Rightarrow> None
            | Some s' \<Rightarrow> run_assembled rest s')
      else None)"

text \<open>
  What the assembled runs keep: the limit stays the same and is at least one, the
  counter counts exactly the transfers in flight, and it is within the limit.
\<close>

definition at_gate :: "int \<Rightarrow> download_manager \<Rightarrow> bool" where
  "at_gate limit s =
     (maxConcurrentDownloads s = limit
      \<and> activeDownloads s = int (length (inFlight s))
      \<and> 1 \<le> limit
      \<and> activeDownloads s \<le> limit)"

section \<open>Properties of the ErrorHandler\<close>

subsection \<open>Classification\<close>

lemma analyzeError_rows:
  "(etype (analyzeError e), isRetryable (analyzeError e), severity (analyzeError e))
     \<in> {(Network, True, High), (Timeout, True, Medium), (Cors, False, High),
        (Ssl, False, High), (Notfound, False, Low), (Auth, False, Medium),
        (Server, True, High), (Unknown, False, Medium)}"
  by (simp add: analyzeError_def Let_def)

lemma analyzeError_original: "originalError (analyzeError e) = e"
  by (simp add: analyzeError_def Let_def)

text \<open>
  Claim C8. The classification table says that a connection or transport failure is
  \<open>network\<close>, retryable and of high severity, and that every upstream failure of the 5xx
  class is \<open>server\<close>, retryable and of high severity. The classifier recognises a
  transport failure only as a \<open>TypeError\<close> whose message contains \<open>fetch\<close>, and a
  server failure only by the substrings \<open>500\<close>, \<open>502\<close> and \<open>503\<close>. The error
  \<open>Error('Network request failed')\<close>, which the repository's own test data lists among
  the network errors that must be retryable, and a 504 response are both classified
  \<open>unknown\<close>, not retryable, medium.
\<close>

theorem analyzeError_unclassified_failures:
  "analyzeError (new_Error ''Network request failed'') =
     \<lparr>etype = Unknown, isRetryable = False, severity = Medium,
      originalError = new_Error ''Network request failed''\<rparr>
   \<and> analyzeError (new_Error ''HTTP 504: Gateway Timeout'') =
     \<lparr>etype = Unknown, isRetryable = False, severity = Medium,
      originalError = new_Error ''HTTP 504: Gateway Timeout''\<rparr>"
  by (simp add: analyzeError_def new_Error_def)

subsection \<open>The seed errors of the two call sites\<close>

lemma seed_download_preparation:
  "analyzeError (new_Error ''Download preparation'') =
     \<lparr>etype = Unknown, isRetryable = False, severity = Medium,
      originalError = new_Error ''Download preparation''\<rparr>"
  by (simp add: analyzeError_def new_Error_def)

lemma seed_network_request_preparation:
  "analyzeError (new_Error ''Network request preparation'') =
     \<lparr>etype = Unknown, isRetryable = False, severity = Medium,
      originalError = new_Error ''Network request preparation''\<rparr>"
  by (simp add: analyzeError_def new_Error_def)

text \<open>
  Claim C2. While the handler is online, \<open>handleNetworkError\<close> called with a seed error
  that is classified as not retryable never invokes the work function: it throws the
  user-friendly message of the seed's classification and changes nothing. The two call
  sites pass \<open>Error('Download preparation')\<close> and \<open>Error('Network request preparation')\<close>,
  which are classified \<open>unknown\<close>, so both throw the message for unknown errors with no
  invocation of the wrapped download or request.
\<close>

theorem handleNetworkError_not_retryable:
  "(isOnline h \<and> \<not> isRetryable (analyzeError error) \<longrightarrow>
      handleNetworkError h error operation retryFunction =
        (Inl (new_Error (generateUserFriendlyMessage (analyzeError error))), h,
         \<lparr>invocations = 0, delays = []\<rparr>))
   \<and> (isOnline h \<longrightarrow>
      handleNetworkError h (new_Error ''Download preparation'') operation retryFunction =
        (Inl (new_Error msg_unknown), h, \<lparr>invocations = 0, delays = []\<rparr>))
   \<and> (isOnline h \<longrightarrow>
      handleNetworkError h (new_Error ''Network request preparation'') operation retryFunction =
        (Inl (new_Error msg_unknown), h, \<lparr>invocations = 0, delays = []\<rparr>))"
  by (simp add: handleNetworkError_def canRetry_def no_trace_def Let_def
      seed_download_preparation seed_network_request_preparation
      generateUserFriendlyMessage_def)

theorem handleNetworkError_not_retryable_witness:
  "isOnline (new_ErrorHandler True)
   \<and> \<not> isRetryable (analyzeError (new_Error ''HTTP 404 Not Found''))
   \<and> handleNetworkError (new_ErrorHandler True) (new_Error ''HTTP 404 Not Found'')
        ''download-1'' (\<lambda>i. Inr (200::nat)) =
        (Inl (new_Error msg_notfound), new_ErrorHandler True,
         \<lparr>invocations = 0, delays = []\<rparr>)
   \<and> handleNetworkError (new_ErrorHandler True) (new_Error ''Download preparation'')
        ''download-1'' (\<lambda>i. Inr (200::nat)) =
        (Inl (new_Error msg_unknown), new_ErrorHandler True,
         \<lparr>invocations = 0, delays = []\<rparr>)"
proof -
  have online: "isOnline (new_ErrorHandler True)"
    by (simp add: new_ErrorHandler_def)
  have cls: "analyzeError (new_Error ''HTTP 404 Not Found'') =
     \<lparr>etype = Notfound, isRetryable = False, severity = Low,
      originalError = new_Error ''HTTP 404 Not Found''\<rparr>"
    by (simp add: analyzeError_def new_Error_def)
  show ?thesis
    using handleNetworkError_not_retryable
      [of "new_ErrorHandler True" "new_Error ''HTTP 404 Not Found''" "''download-1''"
          "\<lambda>i. Inr (200::nat)"]
    by (simp add: online cls generateUserFriendlyMessage_def)
qed

subsection \<open>Retrying\<close>

lemma attempts_of_upd [simp]:
  "attempts_of (h\<lparr>retryAttempts := (retryAttempts h)(operation \<mapsto> n)\<rparr>) operation = n"
  by (simp add: attempts_of_def)


lemma retryOperation_always_failing:
  assumes "\<forall>i. \<exists>e. work i = Inl e \<and> isRetryable (analyzeError e)"
    and "attempts_of h operation < maxRetries h"
  shows "\<exists>tr'. retryOperation operation work h tr =
           (work (invocations tr + (maxRetries h - attempts_of h operation - 1)),
            h\<lparr>retryAttempts := (retryAttempts h)(operation \<mapsto> maxRetries h)\<rparr>, tr')
         \<and> invocations tr' = invocations tr + (maxRetries h - attempts_of h operation)"
  using assms(2)
proof (induction "maxRetries h - attempts_of h operation" arbitrary: h tr)
  case 0
  then show ?case by simp
next
  case (Suc d)
  define a where "a = attempts_of h operation"
  define h1 where "h1 = h\<lparr>retryAttempts := (retryAttempts h)(operation \<mapsto> a + 1)\<rparr>"
  define tr1 where "tr1 = \<lparr>invocations = invocations tr + 1,
    delays = delays tr @ [retryDelay h * 2 ^ a]\<rparr>"
  from assms(1) obtain e where e: "work (invocations tr) = Inl e" "isRetryable (analyzeError e)"
    by blast
  show ?case
  proof (cases "a + 1 < maxRetries h")
    case True
    then have can: "canRetry h1 operation (analyzeError e)"
      using e(2) by (simp add: canRetry_def h1_def)
    have step: "retryOperation operation work h tr = retryOperation operation work h1 tr1"
      using can e(1) unfolding h1_def tr1_def a_def
      by (subst retryOperation.simps) (simp add: Let_def)
    have d: "d = maxRetries h1 - attempts_of h1 operation"
      using Suc.hyps(2) by (simp add: h1_def a_def)
    have lt: "attempts_of h1 operation < maxRetries h1"
      using True by (simp add: h1_def)
    from Suc.hyps(1) [OF d lt, of tr1] obtain tr' where
      r: "retryOperation operation work h1 tr1 =
            (work (invocations tr1 + (maxRetries h1 - attempts_of h1 operation - 1)),
             h1\<lparr>retryAttempts := (retryAttempts h1)(operation \<mapsto> maxRetries h1)\<rparr>, tr')"
      and n: "invocations tr' = invocations tr1 + (maxRetries h1 - attempts_of h1 operation)"
      by blast
    have hh: "h1\<lparr>retryAttempts := (retryAttempts h1)(operation \<mapsto> maxRetries h1)\<rparr>
            = h\<lparr>retryAttempts := (retryAttempts h)(operation \<mapsto> maxRetries h)\<rparr>"
      by (simp add: h1_def)
    have idx: "invocations tr1 + (maxRetries h1 - attempts_of h1 operation - 1)
             = invocations tr + (maxRetries h - attempts_of h operation - 1)"
      using True by (simp add: h1_def tr1_def a_def)
    have cnt: "invocations tr1 + (maxRetries h1 - attempts_of h1 operation)
             = invocations tr + (maxRetries h - attempts_of h operation)"
      using True by (simp add: h1_def tr1_def a_def)
    have "retryOperation operation work h tr =
            (work (invocations tr + (maxRetries h - attempts_of h operation - 1)),
             h\<lparr>retryAttempts := (retryAttempts h)(operation \<mapsto> maxRetries h)\<rparr>, tr')"
      using step r hh idx by simp
    moreover have "invocations tr' = invocations tr + (maxRetries h - attempts_of h operation)"
      using n cnt by simp
    ultimately show ?thesis by blast
  next
    case False
    with Suc.prems have last: "a + 1 = maxRetries h" by (simp add: a_def)
    then have cannot: "\<not> canRetry h1 operation (analyzeError e)"
      by (simp add: canRetry_def h1_def)
    have "retryOperation operation work h tr = (Inl e, h1, tr1)"
      using cannot e(1) unfolding h1_def tr1_def a_def
      by (subst retryOperation.simps) (simp add: Let_def)
    moreover have "h1 = h\<lparr>retryAttempts := (retryAttempts h)(operation \<mapsto> maxRetries h)\<rparr>"
      using last by (simp add: h1_def)
    moreover have "maxRetries h - attempts_of h operation = 1"
      using last by (simp add: a_def)
    ultimately show ?thesis
      using e(1) by (simp add: tr1_def)
  qed
qed

text \<open>
  Claim C4. An operation that always fails with a retryable error is expected to be
  attempted \<open>maxRetries + 1\<close> times, four times with the default budget of three; the
  repository's retry-limit test asserts the same count. The handler never invokes the
  work function itself before retrying and stops as soon as the attempt counter reaches
  \<open>maxRetries\<close>, so the work function runs \<open>maxRetries\<close> times (lemma
  \<open>retryOperation_always_failing\<close>): three times on a fresh handler, with delays of one,
  two and four seconds, after which the last error is thrown and the counter is left at
  three.
\<close>

theorem handleNetworkError_always_failing_runs_three_times:
  "handleNetworkError (new_ErrorHandler True) (new_TypeError ''Failed to fetch'')
     ''failing-operation''
     (\<lambda>i. Inl (new_TypeError ''Failed to fetch'') :: js_error + unit) =
     (Inl (new_TypeError ''Failed to fetch''),
      \<lparr>retryAttempts = [''failing-operation'' \<mapsto> 3], maxRetries = 3, retryDelay = 1000,
       isOnline = True\<rparr>,
      \<lparr>invocations = 3, delays = [1000, 2000, 4000]\<rparr>)"
proof -
  have r: "isRetryable (analyzeError (new_TypeError ''Failed to fetch''))"
    by (simp add: analyzeError_def new_TypeError_def)
  show ?thesis
    by (simp add: handleNetworkError_def canRetry_def attempts_of_def new_ErrorHandler_def
        no_trace_def retryOperation.simps r Let_def numeral_3_eq_3)
qed



section \<open>Properties of the ProxyService\<close>

subsection \<open>Selection\<close>




lemma reduce_lru_member: "reduce_lru best rest \<in> set (best # rest)"
  by (induction best rest rule: reduce_lru.induct) auto




text \<open>An open breaker that has not expired keeps its endpoint out of the selection.\<close>

lemma isServiceAvailable_keeps_breaker:
  assumes "circuitBreaker s n = Some b" "\<not> now - openedAt b > cb_timeout b"
  shows "circuitBreaker (snd (isServiceAvailable now m s)) n = Some b"
    and "\<not> fst (isServiceAvailable now n s)"
  using assms by (auto simp: isServiceAvailable_def split: option.splits)

lemma filter_available_blocked:
  assumes "circuitBreaker s n = Some b" "\<not> now - openedAt b > cb_timeout b"
  shows "circuitBreaker (snd (filter_available now i xs s)) n = Some b
         \<and> (\<forall>(j, sv) \<in> set (fst (filter_available now i xs s)). svc_name sv \<noteq> n)"
  using assms
proof (induction xs arbitrary: i s)
  case Nil
  then show ?case by simp
next
  case (Cons x xs)
  obtain av s1 where a: "isServiceAvailable now (svc_name x) s = (av, s1)"
    by (cases "isServiceAvailable now (svc_name x) s")
  have s1: "circuitBreaker s1 n = Some b"
    using isServiceAvailable_keeps_breaker(1) [OF Cons.prems, of "svc_name x"] a by simp
  have av: "svc_name x = n \<Longrightarrow> \<not> av"
    using isServiceAvailable_keeps_breaker(2) [OF Cons.prems] a by auto
  from Cons.IH [OF s1 Cons.prems(2), of "i + 1"] a av show ?case
    by (auto simp: Let_def split: prod.splits)
qed

lemma selectBestProxy_skips_open_circuit:
  assumes "circuitBreaker s n = Some b" "now - openedAt b \<le> cb_timeout b"
    and "fst (selectBestProxy now s) = Some (i, service)"
  shows "svc_name service \<noteq> n"
proof -
  obtain kept s1 where f: "filter_available now 0 (proxyServices s) s = (kept, s1)"
    by (cases "filter_available now 0 (proxyServices s) s")
  with assms(3) obtain first rest where k: "kept = first # rest"
    and r: "reduce_lru first rest = (i, service)"
    by (auto simp: selectBestProxy_def Let_def split: list.splits)
  have "(i, service) \<in> set kept"
    using reduce_lru_member [of first rest] k r by simp
  moreover have "\<forall>(j, sv) \<in> set kept. svc_name sv \<noteq> n"
    using filter_available_blocked [OF assms(1), of now 0 "proxyServices s"] assms(2) f by simp
  ultimately show ?thesis by auto
qed

subsection \<open>Circuit breaker\<close>

lemma recordFailure_failures [simp]:
  "failures_of (recordFailure now n s) n = failures_of s n + 1"
  by (simp add: recordFailure_def failures_of_def Let_def)

lemma recordFailure_opens:
  "3 \<le> failures_of s n \<Longrightarrow>
     circuitBreaker (recordFailure now n s) n =
       Some \<lparr>isOpen = True, openedAt = now, cb_timeout = 300000\<rparr>"
  by (simp add: recordFailure_def Let_def)

lemma recordFailure_below_threshold:
  "failures_of s n < 3 \<Longrightarrow> circuitBreaker (recordFailure now n s) n = circuitBreaker s n"
  by (simp add: recordFailure_def Let_def)

text \<open>
  The breaker opens at the fourth consecutive failure: \<open>recordFailure\<close> compares the
  count it read before incrementing with the threshold.
\<close>

lemma four_failures_open_circuit:
  "circuitBreaker (recordFailure t4 n (recordFailure t3 n (recordFailure t2 n
      (recordFailure t1 n s)))) n = Some \<lparr>isOpen = True, openedAt = t4, cb_timeout = 300000\<rparr>"
  by (rule recordFailure_opens) simp

lemma three_failures_leave_circuit:
  assumes "failures_of s n = 0"
  shows "circuitBreaker (recordFailure t3 n (recordFailure t2 n (recordFailure t1 n s))) n
           = circuitBreaker s n"
proof -
  have "circuitBreaker (recordFailure t1 n s) n = circuitBreaker s n"
    using assms by (simp add: recordFailure_below_threshold)
  moreover have "circuitBreaker (recordFailure t2 n (recordFailure t1 n s)) n
      = circuitBreaker (recordFailure t1 n s) n"
    using assms by (simp add: recordFailure_below_threshold)
  moreover have "circuitBreaker (recordFailure t3 n (recordFailure t2 n (recordFailure t1 n s))) n
      = circuitBreaker (recordFailure t2 n (recordFailure t1 n s)) n"
    using assms by (simp add: recordFailure_below_threshold)
  ultimately show ?thesis by simp
qed

text \<open>
  Claim C1. After three consecutive \<open>recordFailure\<close> calls for an endpoint its circuit
  should be open and \<open>selectBestProxy\<close> should not return it during the cooldown; the
  repository's failover test asserts this after exactly three calls. On a freshly
  constructed service, three failures recorded for \<open>AllOrigins\<close> leave it without a
  breaker: it is still reported available and \<open>selectBestProxy\<close> returns it.
\<close>

theorem three_failures_do_not_open_circuit:
  "circuitBreaker (recordFailure 1002 ''AllOrigins'' (recordFailure 1001 ''AllOrigins''
        (recordFailure 1000 ''AllOrigins'' new_ProxyService))) ''AllOrigins'' = None
   \<and> fst (isServiceAvailable 1003 ''AllOrigins''
        (recordFailure 1002 ''AllOrigins'' (recordFailure 1001 ''AllOrigins''
          (recordFailure 1000 ''AllOrigins'' new_ProxyService)))) = True
   \<and> map_option (svc_name \<circ> snd) (fst (selectBestProxy 1003
        (recordFailure 1002 ''AllOrigins'' (recordFailure 1001 ''AllOrigins''
          (recordFailure 1000 ''AllOrigins'' new_ProxyService))))) = Some ''AllOrigins''"
  by (simp add: recordFailure_def failures_of_def new_ProxyService_def Let_def
       isServiceAvailable_def selectBestProxy_def default_proxyServices_def checkRateLimit_def)

subsection \<open>Dispatch\<close>

lemma proxyGet_attempt_cases:
  assumes "proxyGet_attempt a s = (step, sel, s')"
  shows "(sel = None \<and> step = Done (Inl (new_Error msg_no_proxy_available)))
       \<or> (\<exists>i response. sel = Some i \<and> body a = Inr response \<and> step = Done (Inr response))
       \<or> (\<exists>i e. sel = Some i \<and> body a = Inl e \<and> step = Continue (rethrown e))"
proof -
  obtain selected s1 where sel: "selectBestProxy (select_now a) s = (selected, s1)"
    by (cases "selectBestProxy (select_now a) s")
  show ?thesis
  proof (cases selected)
    case None
    with assms sel show ?thesis
      by (simp add: proxyGet_attempt_def)
  next
    case (Some p)
    obtain i service where p: "p = (i, service)" by (cases p)
    show ?thesis
    proof (cases "body a")
      case (Inl e)
      with assms sel Some p show ?thesis
        by (auto simp: proxyGet_attempt_def makeProxyRequest_def)
    next
      case (Inr response)
      with assms sel Some p show ?thesis
        by (auto simp: proxyGet_attempt_def makeProxyRequest_def)
    qed
  qed
qed

lemma proxyGet_loop_outcomes:
  assumes "proxyGet_loop env attempts maxAttempts lastError tried s = (r, tried', s')"
    and "length tried = attempts"
    and "attempts \<le> maxAttempts"
    and "0 < maxAttempts"
    and "0 < attempts \<Longrightarrow>
           \<exists>e. body (env (attempts - 1)) = Inl e \<and> lastError = Some (rethrown e)"
    and "\<forall>k<attempts. isl (body (env k))"
  shows "length tried' \<le> maxAttempts
       \<and> (case r of
            Inr response \<Rightarrow>
              tried' \<noteq> [] \<and> body (env (length tried' - 1)) = Inr response
              \<and> (\<forall>k<length tried' - 1. isl (body (env k)))
          | Inl err \<Rightarrow>
              (\<forall>k<length tried'. isl (body (env k)))
              \<and> (err = new_Error msg_no_proxy_available \<and> length tried' < maxAttempts
                 \<or> length tried' = maxAttempts
                   \<and> (\<exists>e. body (env (maxAttempts - 1)) = Inl e
                        \<and> err = new_Error (msg_all_failed_prefix @ err_message (rethrown e)))))"
  using assms
proof (induction "maxAttempts - attempts" arbitrary: attempts lastError tried s)
  case 0
  then have eq: "attempts = maxAttempts" by simp
  with "0.prems"(4,5) obtain e where e: "body (env (maxAttempts - 1)) = Inl e"
    "lastError = Some (rethrown e)"
    by auto
  have "proxyGet_loop env attempts maxAttempts lastError tried s =
          (Inl (new_Error (msg_all_failed_prefix @ err_message (rethrown e))), tried, s)"
    using eq e(2) by (subst proxyGet_loop.simps) simp
  with "0.prems"(1) have "r = Inl (new_Error (msg_all_failed_prefix @ err_message (rethrown e)))"
    "tried' = tried"
    by simp_all
  with e(1) eq "0.prems"(2,6) show ?case by auto
next
  case (Suc d)
  then have lt: "attempts < maxAttempts" by simp
  obtain step sel s1 where at: "proxyGet_attempt (env attempts) s = (step, sel, s1)"
    by (cases "proxyGet_attempt (env attempts) s")
  from proxyGet_attempt_cases [OF at]
  consider (none) "sel = None" "step = Done (Inl (new_Error msg_no_proxy_available))"
    | (ok) i response where "sel = Some i" "body (env attempts) = Inr response"
        "step = Done (Inr response)"
    | (fail) i e where "sel = Some i" "body (env attempts) = Inl e" "step = Continue (rethrown e)"
    by blast
  then show ?case
  proof cases
    case none
    have "proxyGet_loop env attempts maxAttempts lastError tried s =
            (Inl (new_Error msg_no_proxy_available), tried, s1)"
      using lt at none by (subst proxyGet_loop.simps) simp
    with Suc.prems(1) have "r = Inl (new_Error msg_no_proxy_available)" "tried' = tried"
      by simp_all
    with lt Suc.prems(2,6) show ?thesis by auto
  next
    case ok
    have "proxyGet_loop env attempts maxAttempts lastError tried s =
            (Inr response, tried @ [i], s1)"
      using lt at ok by (subst proxyGet_loop.simps) simp
    with Suc.prems(1) have "r = Inr response" "tried' = tried @ [i]"
      by simp_all
    with lt ok(2) Suc.prems(2,6) show ?thesis by auto
  next
    case fail
    have step: "proxyGet_loop env attempts maxAttempts lastError tried s =
            proxyGet_loop env (attempts + 1) maxAttempts (Some (rethrown e)) (tried @ [i]) s1"
      using lt at fail by (subst proxyGet_loop.simps) simp
    have p1: "proxyGet_loop env (attempts + 1) maxAttempts (Some (rethrown e)) (tried @ [i]) s1
                = (r, tried', s')"
      using step Suc.prems(1) by simp
    have p2: "length (tried @ [i]) = attempts + 1"
      using Suc.prems(2) by simp
    have p3: "attempts + 1 \<le> maxAttempts"
      using lt by simp
    have p5: "0 < attempts + 1 \<Longrightarrow>
        \<exists>e'. body (env (attempts + 1 - 1)) = Inl e' \<and> Some (rethrown e) = Some (rethrown e')"
      using fail(2) by simp
    have p6: "\<forall>k<attempts + 1. isl (body (env k))"
      using Suc.prems(6) fail(2) by (auto simp: less_Suc_eq)
    have d: "d = maxAttempts - (attempts + 1)"
      using Suc.hyps(2) by simp
    from Suc.hyps(1) [OF d p1 p2 p3 Suc.prems(4) p5 p6] show ?thesis .
  qed
qed





text \<open>
  What a call can return or throw: at most as many requests as there are endpoints; a
  response is that of the last request; an error is the no-endpoint-available error or,
  after a request to each position of the count, the all-endpoints-failed error.
\<close>

lemma proxyGet_outcome_shapes:
  assumes "isInitialized s"
    and "validateURLSafety securityManager url"
    and "validateHTTPS securityManager url \<or> validateHTTPS securityManager (upgrade_http url)"
    and "proxyServices s \<noteq> []"
    and "proxyGet securityManager env url s = (r, tried, s')"
  shows "length tried \<le> length (proxyServices s)
       \<and> (case r of
            Inr response \<Rightarrow>
              tried \<noteq> [] \<and> body (env (length tried - 1)) = Inr response
              \<and> (\<forall>k<length tried - 1. isl (body (env k)))
          | Inl err \<Rightarrow>
              (\<forall>k<length tried. isl (body (env k)))
              \<and> (err = new_Error msg_no_proxy_available \<and> length tried < length (proxyServices s)
                 \<or> length tried = length (proxyServices s)
                   \<and> (\<exists>e. body (env (length (proxyServices s) - 1)) = Inl e
                        \<and> err = new_Error (msg_all_failed_prefix @ err_message (rethrown e)))))"
proof -
  have loop: "proxyGet_loop env 0 (length (proxyServices s)) None [] s = (r, tried, s')"
    using assms(1,2,3,5) by (simp add: proxyGet_def split: if_splits)
  show ?thesis
    by (rule proxyGet_loop_outcomes [OF loop]) (use assms(4) in simp_all)
qed

lemma proxyGet_attempt_none:
  assumes "fst (selectBestProxy (select_now a) s) = None"
  shows "proxyGet_attempt a s =
           (Done (Inl (new_Error msg_no_proxy_available)), None,
            snd (selectBestProxy (select_now a) s))"
  using assms by (cases "selectBestProxy (select_now a) s") (simp add: proxyGet_attempt_def)

lemma proxyGet_attempt_success:
  assumes "fst (selectBestProxy (select_now a) s) = Some (i, service)"
    and "body a = Inr response"
  shows "\<exists>s'. proxyGet_attempt a s = (Done (Inr response), Some i, s')"
  using assms
  by (cases "selectBestProxy (select_now a) s")
     (simp add: proxyGet_attempt_def makeProxyRequest_def)

lemma proxyGet_attempt_failure:
  assumes "fst (selectBestProxy (select_now a) s) = Some (i, service)"
    and "body a = Inl e"
  shows "\<exists>s'. proxyGet_attempt a s = (Continue (rethrown e), Some i, s')"
  using assms
  by (cases "selectBestProxy (select_now a) s")
     (simp add: proxyGet_attempt_def makeProxyRequest_def)

text \<open>Iterations that fail carry the loop forward.\<close>

lemma proxyGet_loop_failed_prefix:
  assumes "\<forall>j<d. selected_at env s (a + j) \<noteq> None \<and> isl (body (env (a + j)))"
    and "a + d \<le> maxAttempts"
    and "length tried = a"
  shows "\<exists>lastError' tried'.
           proxyGet_loop env a maxAttempts lastError tried (state_before env s a) =
             proxyGet_loop env (a + d) maxAttempts lastError' tried' (state_before env s (a + d))
           \<and> length tried' = a + d
           \<and> (0 < d \<longrightarrow> (\<exists>e. body (env (a + d - 1)) = Inl e \<and> lastError' = Some (rethrown e)))"
  using assms
proof (induction d)
  case 0
  then show ?case by auto
next
  case (Suc d)
  have pre: "\<forall>j<d. selected_at env s (a + j) \<noteq> None \<and> isl (body (env (a + j)))"
    using Suc.prems(1) by simp
  have le: "a + d \<le> maxAttempts"
    using Suc.prems(2) by simp
  from Suc.IH [OF pre le Suc.prems(3)] obtain lastError' tried' where
    run: "proxyGet_loop env a maxAttempts lastError tried (state_before env s a) =
            proxyGet_loop env (a + d) maxAttempts lastError' tried' (state_before env s (a + d))"
    and len: "length tried' = a + d"
    by blast
  from Suc.prems(1) have "selected_at env s (a + d) \<noteq> None" "isl (body (env (a + d)))"
    by simp_all
  then obtain i service e where
    sel: "fst (selectBestProxy (select_now (env (a + d))) (state_before env s (a + d)))
            = Some (i, service)"
    and e: "body (env (a + d)) = Inl e"
    by (auto simp: selected_at_def isl_def)
  from proxyGet_attempt_failure [OF sel e] obtain s' where
    at: "proxyGet_attempt (env (a + d)) (state_before env s (a + d))
           = (Continue (rethrown e), Some i, s')"
    by blast
  have nxt: "state_before env s (a + Suc d) = s'"
    using at by simp
  have lt: "a + d < maxAttempts"
    using Suc.prems(2) by simp
  have "proxyGet_loop env (a + d) maxAttempts lastError' tried' (state_before env s (a + d)) =
          proxyGet_loop env (a + Suc d) maxAttempts (Some (rethrown e)) (tried' @ [i])
            (state_before env s (a + Suc d))"
    using lt at nxt by (subst proxyGet_loop.simps) simp
  with run have "proxyGet_loop env a maxAttempts lastError tried (state_before env s a) =
          proxyGet_loop env (a + Suc d) maxAttempts (Some (rethrown e)) (tried' @ [i])
            (state_before env s (a + Suc d))"
    by simp
  moreover have "length (tried' @ [i]) = a + Suc d"
    using len by simp
  moreover have "body (env (a + Suc d - 1)) = Inl e"
    using e by simp
  ultimately show ?case by blast
qed

text \<open>
  The three ways a call can go are exhaustive: the requests fail up to some iteration
  \<open>k\<close>, at which either the attempts are used up, or no endpoint is available, or the
  request succeeds.
\<close>

lemma proxyGet_dispatch_exhaustive:
  "\<exists>k\<le>N. (\<forall>j<k. selected_at env s j \<noteq> None \<and> isl (body (env j)))
         \<and> (k = N \<or> selected_at env s k = None
             \<or> (\<exists>i service response. selected_at env s k = Some (i, service)
                   \<and> body (env k) = Inr response))"
proof (induction N)
  case 0
  then show ?case by simp
next
  case (Suc N)
  then obtain k where k: "k \<le> N"
    "\<forall>j<k. selected_at env s j \<noteq> None \<and> isl (body (env j))"
    "k = N \<or> selected_at env s k = None
       \<or> (\<exists>i service response. selected_at env s k = Some (i, service)
             \<and> body (env k) = Inr response)"
    by blast
  show ?case
  proof (cases "selected_at env s k \<noteq> None \<and> isl (body (env k))")
    case True
    with k(3) have kN: "k = N"
      by auto
    have "\<forall>j<Suc N. selected_at env s j \<noteq> None \<and> isl (body (env j))"
      using k(2) True kN by (auto simp: less_Suc_eq)
    then show ?thesis by blast
  next
    case False
    then have "selected_at env s k = None
       \<or> (\<exists>i service response. selected_at env s k = Some (i, service)
             \<and> body (env k) = Inr response)"
      by (cases "body (env k)"; cases "selected_at env s k") auto
    with k(1,2) show ?thesis
      by (intro exI [of _ k]) simp
  qed
qed

lemmas dispatch_eval = selected_at_def proxyGet_attempt_def selectBestProxy_def
  isServiceAvailable_def checkRateLimit_def makeProxyRequest_def recordFailure_def
  failures_of_def initialized_ProxyService_def rate_limited_ProxyService_def
  new_ProxyService_def default_proxyServices_def Let_def

text \<open>
  Claim C7. An initialised service with \<open>N \<ge> 1\<close> endpoints, called with a URL that
  passes the checks, makes at most \<open>N\<close> requests. Each iteration calls
  \<open>selectBestProxy\<close> on the state the earlier iterations left. Suppose the first \<open>k\<close>
  iterations each found an endpoint and their requests failed. If \<open>k < N\<close> and
  \<open>selectBestProxy\<close> finds no endpoint in iteration \<open>k\<close>, the call throws the
  no-endpoint-available error after \<open>k\<close> requests. If \<open>k < N\<close> and the request of
  iteration \<open>k\<close> succeeds, the call returns that response, after \<open>k + 1\<close> requests, the
  last of them on the selected endpoint. If \<open>k = N\<close>, all attempts are used up and the
  call throws the all-endpoints-failed error, whose message ends with the message of the
  error thrown by the last request.
\<close>

theorem proxyGet_dispatch:
  assumes "isInitialized s"
    and "validateURLSafety securityManager url"
    and "validateHTTPS securityManager url \<or> validateHTTPS securityManager (upgrade_http url)"
    and "proxyServices s \<noteq> []"
    and "k \<le> length (proxyServices s)"
    and "\<forall>j<k. selected_at env s j \<noteq> None \<and> isl (body (env j))"
  shows "length (fst (snd (proxyGet securityManager env url s))) \<le> length (proxyServices s)
       \<and> (k < length (proxyServices s) \<and> selected_at env s k = None \<longrightarrow>
             fst (proxyGet securityManager env url s) = Inl (new_Error msg_no_proxy_available)
             \<and> length (fst (snd (proxyGet securityManager env url s))) = k)
       \<and> (\<forall>i service response.
             k < length (proxyServices s) \<and> selected_at env s k = Some (i, service)
             \<and> body (env k) = Inr response \<longrightarrow>
             fst (proxyGet securityManager env url s) = Inr response
             \<and> length (fst (snd (proxyGet securityManager env url s))) = k + 1
             \<and> last (fst (snd (proxyGet securityManager env url s))) = i)
       \<and> (k = length (proxyServices s) \<longrightarrow>
             (\<exists>e. body (env (k - 1)) = Inl e
                \<and> fst (proxyGet securityManager env url s)
                    = Inl (new_Error (msg_all_failed_prefix @ err_message (rethrown e))))
             \<and> length (fst (snd (proxyGet securityManager env url s))) = k)"
proof -
  let ?N = "length (proxyServices s)"
  let ?run = "proxyGet securityManager env url s"
  have pg: "?run = proxyGet_loop env 0 ?N None [] s"
    using assms(1,2,3) by (simp add: proxyGet_def)
  have pre: "\<forall>j<k. selected_at env s (0 + j) \<noteq> None \<and> isl (body (env (0 + j)))"
    using assms(6) by simp
  have "0 + k \<le> ?N" "length ([] :: nat list) = 0"
    using assms(5) by simp_all
  from proxyGet_loop_failed_prefix [OF pre this, of None] obtain lastError' tried' where
    run: "?run = proxyGet_loop env k ?N lastError' tried' (state_before env s k)"
    and len: "length tried' = k"
    and le: "0 < k \<longrightarrow> (\<exists>e. body (env (k - 1)) = Inl e \<and> lastError' = Some (rethrown e))"
    using pg by auto
  have none: "fst ?run = Inl (new_Error msg_no_proxy_available) \<and> length (fst (snd ?run)) = k"
    if "k < ?N" "selected_at env s k = None"
  proof -
    have "proxyGet_loop env k ?N lastError' tried' (state_before env s k) =
            (Inl (new_Error msg_no_proxy_available), tried',
             snd (selectBestProxy (select_now (env k)) (state_before env s k)))"
      using that proxyGet_attempt_none [of "env k" "state_before env s k"]
      by (subst proxyGet_loop.simps) (simp add: selected_at_def)
    with run len show ?thesis by simp
  qed
  have ok: "fst ?run = Inr response \<and> length (fst (snd ?run)) = k + 1 \<and> last (fst (snd ?run)) = i"
    if "k < ?N" "selected_at env s k = Some (i, service)" "body (env k) = Inr response"
    for i service response
  proof -
    from that(2) have "fst (selectBestProxy (select_now (env k)) (state_before env s k))
        = Some (i, service)"
      by (simp add: selected_at_def)
    from proxyGet_attempt_success [OF this that(3)] obtain s' where
      "proxyGet_attempt (env k) (state_before env s k) = (Done (Inr response), Some i, s')"
      by blast
    then have "proxyGet_loop env k ?N lastError' tried' (state_before env s k) =
            (Inr response, tried' @ [i], s')"
      using that(1) by (subst proxyGet_loop.simps) simp
    with run len show ?thesis by simp
  qed
  have all: "(\<exists>e. body (env (k - 1)) = Inl e
                \<and> fst ?run = Inl (new_Error (msg_all_failed_prefix @ err_message (rethrown e))))
             \<and> length (fst (snd ?run)) = k"
    if "k = ?N"
  proof -
    from that assms(4) have "0 < k" by simp
    with le obtain e where e: "body (env (k - 1)) = Inl e" "lastError' = Some (rethrown e)"
      by blast
    have "proxyGet_loop env k ?N lastError' tried' (state_before env s k) =
            (Inl (new_Error (msg_all_failed_prefix @ err_message (rethrown e))), tried',
             state_before env s k)"
      using that e(2) by (subst proxyGet_loop.simps) simp
    with run len e(1) show ?thesis by auto
  qed
  have bound: "length (fst (snd ?run)) \<le> ?N"
  proof -
    have "?run = (fst ?run, fst (snd ?run), snd (snd ?run))" by simp
    from proxyGet_outcome_shapes [OF assms(1,2,3,4) this] show ?thesis by simp
  qed
  from bound none ok all show ?thesis by blast
qed

theorem proxyGet_dispatch_witness:
  "isInitialized initialized_ProxyService
   \<and> validateURLSafety https_only ''https://example.com/''
   \<and> validateHTTPS https_only ''https://example.com/''
   \<and> proxyServices initialized_ProxyService \<noteq> []
   \<and> fst (proxyGet https_only fail_then_succeed ''https://example.com/''
        initialized_ProxyService) = Inr ''response''
   \<and> length (fst (snd (proxyGet https_only fail_then_succeed ''https://example.com/''
        initialized_ProxyService))) = 2
   \<and> selected_at failing_attempts rate_limited_ProxyService 0 = None
   \<and> fst (proxyGet https_only failing_attempts ''https://example.com/''
        rate_limited_ProxyService) = Inl (new_Error msg_no_proxy_available)
   \<and> length (fst (snd (proxyGet https_only failing_attempts ''https://example.com/''
        rate_limited_ProxyService))) = 0
   \<and> fst (proxyGet https_only failing_attempts ''https://example.com/''
        initialized_ProxyService)
        = Inl (new_Error (msg_all_failed_prefix @ err_message (rethrown (new_Error msg_unknown))))
   \<and> length (fst (snd (proxyGet https_only failing_attempts ''https://example.com/''
        initialized_ProxyService))) = 3"
proof -
  have a: "isInitialized initialized_ProxyService" "isInitialized rate_limited_ProxyService"
    by (simp_all add: initialized_ProxyService_def rate_limited_ProxyService_def)
  have b: "validateURLSafety https_only ''https://example.com/''"
    by (simp add: https_only_def)
  have c: "validateHTTPS https_only ''https://example.com/''"
    by (simp add: https_only_def)
  have d: "proxyServices initialized_ProxyService \<noteq> []"
    "proxyServices rate_limited_ProxyService \<noteq> []"
    by (simp_all add: initialized_ProxyService_def rate_limited_ProxyService_def
        new_ProxyService_def default_proxyServices_def)
  have n: "length (proxyServices initialized_ProxyService) = 3"
    "length (proxyServices rate_limited_ProxyService) = 3"
    by (simp_all add: initialized_ProxyService_def rate_limited_ProxyService_def
        new_ProxyService_def default_proxyServices_def)
  have f0: "map_option fst (selected_at fail_then_succeed initialized_ProxyService 0) = Some 0"
    by (simp add: dispatch_eval fail_then_succeed_def)
  have f1: "map_option fst (selected_at fail_then_succeed initialized_ProxyService 1) = Some 0"
    by (simp add: dispatch_eval fail_then_succeed_def)
  have fb: "isl (body (fail_then_succeed 0))" "body (fail_then_succeed 1) = Inr ''response''"
    by (simp_all add: fail_then_succeed_def)
  have pre1: "\<forall>j<1. selected_at fail_then_succeed initialized_ProxyService j \<noteq> None
      \<and> isl (body (fail_then_succeed j))"
    using f0 fb(1) by auto
  from f1 obtain service where
    s1: "selected_at fail_then_succeed initialized_ProxyService 1 = Some (0, service)"
    by auto
  have ok: "fst (proxyGet https_only fail_then_succeed ''https://example.com/''
        initialized_ProxyService) = Inr ''response''
      \<and> length (fst (snd (proxyGet https_only fail_then_succeed ''https://example.com/''
        initialized_ProxyService))) = 2"
    using proxyGet_dispatch [OF a(1) b disjI1 [OF c] d(1) _ pre1] s1 fb(2) n(1) by simp
  have r0: "selected_at failing_attempts rate_limited_ProxyService 0 = None"
    by (simp add: dispatch_eval failing_attempts_def)
  have pre0: "\<forall>j<0. selected_at failing_attempts rate_limited_ProxyService j \<noteq> None
      \<and> isl (body (failing_attempts j))"
    by simp
  have none: "fst (proxyGet https_only failing_attempts ''https://example.com/''
        rate_limited_ProxyService) = Inl (new_Error msg_no_proxy_available)
      \<and> length (fst (snd (proxyGet https_only failing_attempts ''https://example.com/''
        rate_limited_ProxyService))) = 0"
    using proxyGet_dispatch [OF a(2) b disjI1 [OF c] d(2) _ pre0] r0 n(2) by simp
  have g: "selected_at failing_attempts initialized_ProxyService 0 \<noteq> None"
    "selected_at failing_attempts initialized_ProxyService 1 \<noteq> None"
    "selected_at failing_attempts initialized_ProxyService 2 \<noteq> None"
    by (simp_all add: dispatch_eval failing_attempts_def numeral_2_eq_2)
  have bd: "\<And>j. body (failing_attempts j) = Inl (new_Error msg_unknown)"
    by (simp add: failing_attempts_def)
  have pre3: "\<forall>j<3. selected_at failing_attempts initialized_ProxyService j \<noteq> None
      \<and> isl (body (failing_attempts j))"
    using g bd by (auto simp: less_Suc_eq numeral_3_eq_3 numeral_2_eq_2)
  have all: "fst (proxyGet https_only failing_attempts ''https://example.com/''
        initialized_ProxyService)
        = Inl (new_Error (msg_all_failed_prefix @ err_message (rethrown (new_Error msg_unknown))))
      \<and> length (fst (snd (proxyGet https_only failing_attempts ''https://example.com/''
        initialized_ProxyService))) = 3"
    using proxyGet_dispatch [OF a(1) b disjI1 [OF c] d(1) _ pre3] n(1) bd by simp
  from a(1) b c d(1) ok r0 none all show ?thesis by simp
qed

section \<open>Properties of the DownloadManager\<close>

lemmas scheduler_defs = handle_event_def submitDownload_def queueDownload_def
  executeDownload_begin_def executeDownload_end_def processQueue_def updateDownloadStatus_def
  cancelDownload_def retryDownload_def initialize_def new_DownloadManager_def status_of_def

lemma updateDownloadStatus_fields [simp]:
  "activeDownloads (updateDownloadStatus now i st err s) = activeDownloads s"
  "maxConcurrentDownloads (updateDownloadStatus now i st err s) = maxConcurrentDownloads s"
  "downloadQueue (updateDownloadStatus now i st err s) = downloadQueue s"
  "dm_retryAttempts (updateDownloadStatus now i st err s) = dm_retryAttempts s"
  "retryTimers (updateDownloadStatus now i st err s) = retryTimers s"
  "inFlight (updateDownloadStatus now i st err s) = inFlight s"
  by (simp_all add: updateDownloadStatus_def Let_def split: option.splits)

lemma executeDownload_begin_fields [simp]:
  "activeDownloads (executeDownload_begin now i s) = activeDownloads s + 1"
  "maxConcurrentDownloads (executeDownload_begin now i s) = maxConcurrentDownloads s"
  by (simp_all add: executeDownload_begin_def Let_def)

lemma processQueue_gate:
  assumes "activeDownloads s \<le> maxConcurrentDownloads s"
  shows "activeDownloads (processQueue now s) \<le> maxConcurrentDownloads (processQueue now s)"
  using assms by (simp add: processQueue_def split: list.splits)

lemma queueDownload_gate:
  assumes "activeDownloads s \<le> maxConcurrentDownloads s"
  shows "activeDownloads (queueDownload now i s) \<le> maxConcurrentDownloads (queueDownload now i s)"
  using assms by (simp add: queueDownload_def)

lemma executeDownload_end_gate:
  assumes "activeDownloads s \<le> maxConcurrentDownloads s"
    and "executeDownload_end now i outcome s = Some s'"
  shows "activeDownloads s' \<le> maxConcurrentDownloads s'"
proof -
  from assms(2) obtain s2 where s': "s' = processQueue now s2"
    and a: "activeDownloads s2 = activeDownloads s - 1"
    and m: "maxConcurrentDownloads s2 = maxConcurrentDownloads s"
    by (auto simp: executeDownload_end_def Let_def split: option.splits if_splits)
  have "activeDownloads s2 \<le> maxConcurrentDownloads s2"
    using assms(1) a m by simp
  then show ?thesis
    unfolding s' by (rule processQueue_gate)
qed

text \<open>
  Every path into \<open>executeDownload\<close> except the retry timeout checks the gate first.
\<close>

lemma gate_preserved_without_retry_timer:
  assumes "activeDownloads s \<le> maxConcurrentDownloads s"
    and "handle_event now e s = Some s'"
    and "\<not> is_retry_timer e"
  shows "activeDownloads s' \<le> maxConcurrentDownloads s'"
proof (cases e)
  case (Submit ty i url name)
  show ?thesis
  proof (cases "dm_isInitialized s")
    case False
    with Submit assms(1,2) show ?thesis
      by (auto simp: handle_event_def submitDownload_def)
  next
    case True
    with Submit assms(2) obtain s1 where s': "s' = queueDownload now i s1"
      and "activeDownloads s1 = activeDownloads s"
      and "maxConcurrentDownloads s1 = maxConcurrentDownloads s"
      by (auto simp: handle_event_def submitDownload_def Let_def)
    with assms(1) have "activeDownloads s1 \<le> maxConcurrentDownloads s1"
      by simp
    then show ?thesis
      unfolding s' by (rule queueDownload_gate)
  qed
next
  case (TransferEnds i outcome)
  with assms(2) have "executeDownload_end now i outcome
      (s\<lparr>inFlight := remove1 i (inFlight s)\<rparr>) = Some s'"
    by (simp add: handle_event_def split: if_splits)
  moreover have "activeDownloads (s\<lparr>inFlight := remove1 i (inFlight s)\<rparr>)
      \<le> maxConcurrentDownloads (s\<lparr>inFlight := remove1 i (inFlight s)\<rparr>)"
    using assms(1) by simp
  ultimately show ?thesis
    by (rule executeDownload_end_gate [rotated])
next
  case (RetryTimerFires i)
  with assms(3) show ?thesis by (simp add: is_retry_timer_def)
next
  case (CancelDownload i)
  with assms(1,2) show ?thesis
    by (auto simp: handle_event_def cancelDownload_def Let_def split: option.splits if_splits)
next
  case (RetryDownload i)
  show ?thesis
  proof (cases "\<exists>download. downloads s i = Some download \<and> status download = Failed")
    case False
    with RetryDownload assms(1,2) show ?thesis
      by (auto simp: handle_event_def retryDownload_def split: option.splits if_splits)
  next
    case True
    with RetryDownload assms(2) obtain s1 where s': "s' = queueDownload now i s1"
      and "activeDownloads s1 = activeDownloads s"
      and "maxConcurrentDownloads s1 = maxConcurrentDownloads s"
      by (auto simp: handle_event_def retryDownload_def)
    with assms(1) have "activeDownloads s1 \<le> maxConcurrentDownloads s1"
      by simp
    then show ?thesis
      unfolding s' by (rule queueDownload_gate)
  qed
qed

lemma run_events_gate_without_retry_timer:
  assumes "activeDownloads s \<le> maxConcurrentDownloads s"
    and "run_events events s = Some s'"
    and "\<forall>(now, e) \<in> set events. \<not> is_retry_timer e"
  shows "activeDownloads s' \<le> maxConcurrentDownloads s'"
  using assms
proof (induction events arbitrary: s)
  case Nil
  then show ?case by simp
next
  case (Cons x events)
  obtain now e where x: "x = (now, e)" by (cases x)
  from Cons.prems(2) x obtain s1 where h: "handle_event now e s = Some s1"
    and r: "run_events events s1 = Some s'"
    by (auto split: option.splits)
  have "activeDownloads s1 \<le> maxConcurrentDownloads s1"
    using gate_preserved_without_retry_timer [OF Cons.prems(1) h] Cons.prems(3) x by simp
  from Cons.IH [OF this r] Cons.prems(3) show ?case by simp
qed

text \<open>
  The retry timeout itself calls \<open>executeDownload\<close> without looking at the gate. In a
  run where three transfers were still awaited when a retry timeout fires, the counter
  would pass the limit; the manager as assembled has no such run, since the timeout
  would have to fire while transfers are in flight.
\<close>

lemma retry_reentry_exceeds_gate:
  "map_option activeDownloads (run_events retry_reentry_scenario (initialize new_DownloadManager))
     = Some 4
   \<and> map_option maxConcurrentDownloads
        (run_events retry_reentry_scenario (initialize new_DownloadManager)) = Some 3
   \<and> map_option inFlight (run_events retry_reentry_scenario (initialize new_DownloadManager))
     = Some [''B'', ''C'', ''D'', ''A'']"
  by (simp add: retry_reentry_scenario_def scheduler_defs Let_def)

lemma retry_reentry_not_assembled:
  "run_assembled retry_reentry_scenario (initialize new_DownloadManager) = None"
  by (simp add: retry_reentry_scenario_def occurs_as_assembled_def scheduler_defs Let_def)

subsection \<open>The gate in the assembled manager\<close>

lemma executeFileDownload_rejects_at_once:
  "\<exists>error. executeFileDownload h deviceInfo userAgent downloadId downloadFunction =
            (Inl error, h, \<lparr>invocations = 0, delays = []\<rparr>)"
proof (cases "isOnline h")
  case True
  then have "handleNetworkError h (new_Error ''Download preparation'')
      (''download-'' @ downloadId) downloadFunction =
      (Inl (new_Error msg_unknown), h, \<lparr>invocations = 0, delays = []\<rparr>)"
    by (simp add: handleNetworkError_def canRetry_def no_trace_def Let_def
        seed_download_preparation generateUserFriendlyMessage_def)
  then show ?thesis
    by (simp add: executeFileDownload_def)
next
  case False
  then have "handleNetworkError h (new_Error ''Download preparation'')
      (''download-'' @ downloadId) downloadFunction =
      (Inl (new_Error msg_offline), h, \<lparr>invocations = 0, delays = []\<rparr>)"
    by (simp add: handleNetworkError_def no_trace_def Let_def)
  then show ?thesis
    by (simp add: executeFileDownload_def)
qed

lemma executeDownload_begin_inFlight [simp]:
  "inFlight (executeDownload_begin now i s) = inFlight s @ [i]"
  by (simp add: executeDownload_begin_def Let_def)



lemma at_gate_other_fields [simp]:
  "at_gate limit (s\<lparr>downloads := m\<rparr>) = at_gate limit s"
  "at_gate limit (s\<lparr>downloadQueue := q\<rparr>) = at_gate limit s"
  "at_gate limit (s\<lparr>retryTimers := r\<rparr>) = at_gate limit s"
  by (simp_all add: at_gate_def)








text \<open>
  Claim C6. A task cancelled while it is downloading should stay cancelled when its
  transfer settles. \<open>cancelDownload\<close> marks it cancelled, but the second segment of
  \<open>executeDownload\<close> sets the status without looking at it: a fulfilled transfer makes
  the task completed, a rejected one makes it retrying.
\<close>

theorem cancelled_download_completes:
  "status_after cancel_scenario (initialize new_DownloadManager) ''A'' = Some Cancelled
   \<and> status_after cancel_then_success_scenario (initialize new_DownloadManager) ''A''
       = Some Completed
   \<and> status_after cancel_then_failure_scenario (initialize new_DownloadManager) ''A''
       = Some Retrying"
  by (simp add: cancel_scenario_def cancel_then_success_scenario_def
      cancel_then_failure_scenario_def status_after_def scheduler_defs Let_def)

subsection \<open>Round trip\<close>

lemma holds_task_updateDownloadStatus:
  "holds_task s d url name \<Longrightarrow> holds_task (updateDownloadStatus now i st err s) d url name"
  by (auto simp: holds_task_def updateDownloadStatus_def Let_def split: option.splits)

lemma holds_task_other_fields [simp]:
  "holds_task (s\<lparr>activeDownloads := a\<rparr>) d url name = holds_task s d url name"
  "holds_task (s\<lparr>downloadQueue := q\<rparr>) d url name = holds_task s d url name"
  "holds_task (s\<lparr>inFlight := f\<rparr>) d url name = holds_task s d url name"
  "holds_task (s\<lparr>retryTimers := r\<rparr>) d url name = holds_task s d url name"
  by (simp_all add: holds_task_def)

lemma holds_task_executeDownload_begin:
  "holds_task s d url name \<Longrightarrow> holds_task (executeDownload_begin now i s) d url name"
  by (simp add: executeDownload_begin_def Let_def holds_task_updateDownloadStatus)

lemma holds_task_processQueue:
  "holds_task s d url name \<Longrightarrow> holds_task (processQueue now s) d url name"
  by (simp add: processQueue_def holds_task_executeDownload_begin split: list.splits)

lemma holds_task_queueDownload:
  "holds_task s d url name \<Longrightarrow> holds_task (queueDownload now i s) d url name"
  by (simp add: queueDownload_def holds_task_executeDownload_begin holds_task_updateDownloadStatus)

lemma holds_task_retryCount:
  assumes "holds_task s d url name" "downloads s i = Some task"
  shows "holds_task (s\<lparr>downloads := (downloads s)(i \<mapsto> task\<lparr>retryCount := n\<rparr>)\<rparr>) d url name"
  using assms by (auto simp: holds_task_def split: option.splits)

lemma holds_task_executeDownload_end:
  assumes "holds_task s d url name" "executeDownload_end now i outcome s = Some s'"
  shows "holds_task s' d url name"
proof -
  from assms(2) obtain task where t: "downloads s i = Some task"
    by (auto simp: executeDownload_end_def split: option.splits)
  define s1 where "s1 = (case outcome of
      None \<Rightarrow> updateDownloadStatus now i Completed None s
    | Some error \<Rightarrow>
        if retryCount task < dm_retryAttempts s then
          (let s' = s\<lparr>downloads := (downloads s)(i \<mapsto> task\<lparr>retryCount := retryCount task + 1\<rparr>)\<rparr>;
               s'' = updateDownloadStatus now i Retrying None s'
           in s''\<lparr>retryTimers := retryTimers s'' @ [i]\<rparr>)
        else updateDownloadStatus now i Failed (Some (err_message error)) s)"
  have s': "s' = processQueue now (s1\<lparr>activeDownloads := activeDownloads s1 - 1\<rparr>)"
    using assms(2) t by (simp add: executeDownload_end_def s1_def Let_def)
  have "holds_task s1 d url name"
    unfolding s1_def using assms(1) holds_task_retryCount [OF assms(1) t]
    by (simp add: Let_def holds_task_updateDownloadStatus split: option.splits)
  then show ?thesis
    unfolding s' by (simp add: holds_task_processQueue)
qed

lemma holds_task_cancelDownload:
  "holds_task s d url name \<Longrightarrow> holds_task (cancelDownload now i s) d url name"
  by (simp add: cancelDownload_def Let_def holds_task_updateDownloadStatus split: option.splits)

lemma holds_task_retryDownload:
  assumes "holds_task s d url name"
  shows "holds_task (retryDownload now i s) d url name"
proof (cases "downloads s i")
  case None
  with assms show ?thesis by (simp add: retryDownload_def)
next
  case (Some download)
  have "holds_task (s\<lparr>downloads := (downloads s)(i \<mapsto>
      download\<lparr>retryCount := 0, status := Pending, progress := 0, task_error := None\<rparr>)\<rparr>)
      d url name"
    using assms Some by (auto simp: holds_task_def split: option.splits)
  with assms Some show ?thesis
    by (simp add: retryDownload_def holds_task_queueDownload)
qed

lemma holds_task_submitDownload:
  assumes "holds_task s d url name" "i \<noteq> d"
  shows "holds_task (snd (submitDownload ty now i url' name' s)) d url name"
proof (cases "dm_isInitialized s")
  case False
  with assms show ?thesis by (simp add: submitDownload_def)
next
  case True
  have "holds_task (s\<lparr>downloads := (downloads s)(i \<mapsto> t)\<rparr>) d url name" for t
    using assms by (simp add: holds_task_def)
  with True show ?thesis
    by (simp add: submitDownload_def Let_def holds_task_queueDownload)
qed

lemma holds_task_handle_event:
  assumes "holds_task s d url name" "handle_event now e s = Some s'" "\<not> resubmits d e"
  shows "holds_task s' d url name"
proof (cases e)
  case (Submit ty i url' name')
  with assms(3) have "i \<noteq> d" by (simp add: resubmits_def)
  from holds_task_submitDownload [OF assms(1) this] Submit assms(2) show ?thesis
    by (auto simp: handle_event_def)
next
  case (TransferEnds i outcome)
  with assms(2) have "executeDownload_end now i outcome
      (s\<lparr>inFlight := remove1 i (inFlight s)\<rparr>) = Some s'"
    by (simp add: handle_event_def split: if_splits)
  moreover have "holds_task (s\<lparr>inFlight := remove1 i (inFlight s)\<rparr>) d url name"
    using assms(1) by simp
  ultimately show ?thesis
    by (rule holds_task_executeDownload_end [rotated])
next
  case (RetryTimerFires i)
  with assms(1,2) show ?thesis
    by (auto simp: handle_event_def holds_task_executeDownload_begin split: if_splits)
next
  case (CancelDownload i)
  with assms(1,2) show ?thesis
    by (auto simp: handle_event_def holds_task_cancelDownload)
next
  case (RetryDownload i)
  with assms(1,2) show ?thesis
    by (auto simp: handle_event_def holds_task_retryDownload)
qed

lemma holds_task_run_events:
  assumes "holds_task s d url name" "run_events events s = Some s'"
    and "\<forall>(now, e) \<in> set events. \<not> resubmits d e"
  shows "holds_task s' d url name"
  using assms
proof (induction events arbitrary: s)
  case Nil
  then show ?case by simp
next
  case (Cons x events)
  obtain now e where x: "x = (now, e)" by (cases x)
  from Cons.prems(2) x obtain s1 where h: "handle_event now e s = Some s1"
    and r: "run_events events s1 = Some s'"
    by (auto split: option.splits)
  have "holds_task s1 d url name"
    using holds_task_handle_event [OF Cons.prems(1) h] Cons.prems(3) x by simp
  from Cons.IH [OF this r] Cons.prems(3) show ?case by simp
qed

text \<open>
  Claim C10, as stated: reading a submitted task back through \<open>getDownloadProgress\<close>
  yields its id, target URL and file name. It fails for the URL: the object that
  \<open>getDownloadProgress\<close> returns has no such property, so reading it gives
  \<open>undefined\<close> right after the submission.
\<close>

theorem getDownloadProgress_has_no_url:
  "read_back (snd (downloadMediaFile 0 ''A'' ''https://example.com/a.mp4'' ''a.mp4''
       (initialize new_DownloadManager))) ''A'' ''url'' = Some JUndefined
   \<and> read_back (snd (downloadMediaFile 0 ''A'' ''https://example.com/a.mp4'' ''a.mp4''
       (initialize new_DownloadManager))) ''A'' ''filename'' = Some (JString ''a.mp4'')"
  by (simp add: read_back_def getDownloadProgress_def get_property_def downloadMediaFile_def
      scheduler_defs Let_def)

text \<open>
  Claim C10, amended. A task submitted to an initialised manager is found again under
  the returned id, whatever happens to it afterwards (start, cancellation, failure,
  retry, completion, submissions under other ids): the task in the \<open>downloads\<close> map has
  the submitted id, target URL and file name, and the object returned by
  \<open>getDownloadProgress\<close> has the submitted id and file name and no target URL.
\<close>

theorem submitted_task_round_trip:
  assumes "dm_isInitialized s"
    and "submitDownload ty now downloadId url name s = (r, s1)"
    and "run_events events s1 = Some s2"
    and "\<forall>(t, e) \<in> set events. \<not> resubmits downloadId e"
  shows "r = Inr downloadId
       \<and> (\<exists>task. downloads s2 downloadId = Some task \<and> task_id task = downloadId
             \<and> task_url task = url \<and> filename task = name)
       \<and> (\<exists>p. getDownloadProgress s2 downloadId = Some p
             \<and> get_property p ''id'' = JString downloadId
             \<and> get_property p ''filename'' = JString name
             \<and> get_property p ''url'' = JUndefined)"
proof -
  let ?task = "\<lparr>task_id = downloadId, kind = ty, task_url = url, filename = name,
    status = Pending, progress = 0, startTime = now, retryCount = 0,
    lastUpdate = None, task_error = None, completedTime = None, duration = None\<rparr>"
  have r: "r = Inr downloadId"
    and s1: "s1 = queueDownload now downloadId (s\<lparr>downloads := (downloads s)(downloadId \<mapsto> ?task)\<rparr>)"
    using assms(1,2) by (simp_all add: submitDownload_def Let_def)
  have "holds_task (s\<lparr>downloads := (downloads s)(downloadId \<mapsto> ?task)\<rparr>) downloadId url name"
    by (simp add: holds_task_def)
  then have "holds_task s1 downloadId url name"
    unfolding s1 by (rule holds_task_queueDownload)
  from holds_task_run_events [OF this assms(3,4)]
  have "holds_task s2 downloadId url name" .
  then obtain task where "downloads s2 downloadId = Some task" "task_id task = downloadId"
    "task_url task = url" "filename task = name"
    by (auto simp: holds_task_def split: option.splits)
  with r show ?thesis
    by (simp add: getDownloadProgress_def get_property_def)
qed

theorem submitted_task_round_trip_witness:
  "dm_isInitialized (initialize new_DownloadManager)
   \<and> (\<exists>s2. run_events status_changes
          (snd (submitDownload Media 0 ''A'' ''https://example.com/a.mp4'' ''a.mp4''
             (initialize new_DownloadManager))) = Some s2
        \<and> status_of s2 ''A'' = Some Completed
        \<and> (\<exists>task. downloads s2 ''A'' = Some task \<and> task_id task = ''A''
              \<and> task_url task = ''https://example.com/a.mp4'' \<and> filename task = ''a.mp4'')
        \<and> (\<exists>p. getDownloadProgress s2 ''A'' = Some p
              \<and> get_property p ''id'' = JString ''A''
              \<and> get_property p ''filename'' = JString ''a.mp4''
              \<and> get_property p ''url'' = JUndefined))"
proof -
  let ?s = "initialize new_DownloadManager"
  let ?sub = "submitDownload Media 0 ''A'' ''https://example.com/a.mp4'' ''a.mp4'' ?s"
  have i: "dm_isInitialized ?s"
    by (simp add: initialize_def)
  have sub: "?sub = (fst ?sub, snd ?sub)"
    by simp
  have st: "map_option (\<lambda>s. status_of s ''A'') (run_events status_changes (snd ?sub))
              = Some (Some Completed)"
    by (simp add: status_changes_def scheduler_defs Let_def)
  then obtain s2 where run: "run_events status_changes (snd ?sub) = Some s2"
    and fin: "status_of s2 ''A'' = Some Completed"
    by auto
  have fresh: "\<forall>(t, e) \<in> set status_changes. \<not> resubmits ''A'' e"
    by (simp add: status_changes_def resubmits_def)
  from submitted_task_round_trip [OF i sub run fresh] i run fin show ?thesis
    by blast
qed


end
